theory Spec2Isabelle
  imports Main
begin

section \<open>Values of the client\<close>

text \<open>
  The client (\<^verbatim>\<open>PeetBetClient\<close>) works on three kinds of values: \<^verbatim>\<open>bigint\<close>
  amounts, which are unbounded integers and are modelled as \<^typ>\<open>int\<close>; addresses
  (\<^verbatim>\<open>`0x${string}`\<close>), which are strings; and plain numbers holding small counts and
  millisecond durations, modelled as \<^typ>\<open>int\<close> too.
\<close>

type_synonym address = string

text \<open>
  \<^verbatim>\<open>a / b\<close> and \<^verbatim>\<open>a % b\<close> on \<^verbatim>\<open>bigint\<close> truncate toward zero, and the remainder
  has the sign of the dividend. The client divides by the constants 10000, 100 and 2
  only, so the \<^verbatim>\<open>RangeError\<close> of a zero divisor has no branch here.
\<close>

definition bigint_div :: "int \<Rightarrow> int \<Rightarrow> int" where
  "bigint_div a b = sgn a * sgn b * (\<bar>a\<bar> div \<bar>b\<bar>)"

definition bigint_rem :: "int \<Rightarrow> int \<Rightarrow> int" where
  "bigint_rem a b = sgn a * (\<bar>a\<bar> mod \<bar>b\<bar>)"

text \<open>
  \<^verbatim>\<open>String.prototype.toLowerCase\<close> on the characters an address is made of: the
  ASCII capitals \<open>A\<close> to \<open>Z\<close> (codes 65 to 90) move to their small letters, every other
  character stays.
\<close>

definition lower_char :: "char \<Rightarrow> char" where
  "lower_char c =
     (let n = (of_char c :: nat) in if 65 \<le> n \<and> n \<le> 90 then char_of (n + 32) else c)"

definition toLowerCase :: "string \<Rightarrow> string" where
  "toLowerCase s = map lower_char s"

definition ZERO_ADDRESS :: address where
  "ZERO_ADDRESS = ''0x0000000000000000000000000000000000000000''"

text \<open>
  Every \<^verbatim>\<open>throw new Error(...)\<close> of the modelled methods is a constructor; a rejected
  read or write of the underlying transport is \<open>Rejected\<close> with its message.

  \<^item> \<open>NotCompletedYet\<close>: "Game is not completed yet. Use waitForCoinFlipResult() to wait
    for completion."
  \<^item> \<open>CancelledOrNotCompleted\<close>: "Game was cancelled or not completed."
  \<^item> \<open>DiceNotCompletedYet\<close>: "Game is not completed yet. Use waitForDiceResult() to wait."
  \<^item> \<open>RoomCancelled\<close>: "Room was cancelled before game started."
  \<^item> \<open>TimeoutGameResult t\<close>: "Timeout waiting for game result after t/1000 seconds"
  \<^item> \<open>TimeoutDiceResult t\<close>: "Timeout waiting for dice result after t/1000 seconds"
  \<^item> \<open>NoAddressProvided\<close>: "No address provided"
  \<^item> \<open>WalletNotConfigured\<close>: "Wallet not configured. Provide privateKey in options."
\<close>

datatype error =
    NotCompletedYet
  | CancelledOrNotCompleted
  | DiceNotCompletedYet
  | RoomCancelled
  | TimeoutGameResult int
  | TimeoutDiceResult int
  | NoAddressProvided
  | WalletNotConfigured
  | Rejected string

section \<open>Rooms and results\<close>

record CoinFlipRoom =
  id' :: int
  roomNumber :: int
  createdAt :: int
  playerA :: address
  playerB :: address
  betAmount :: int
  isActive :: bool
  winner :: address
  isHouseGame :: bool
  isChallenge :: bool
  completedAt :: int
  randomWord :: int
  vrfRequestId :: int
  houseEdgeBps :: int

datatype coin = heads | tails

text \<open>
  The summary is a template filled with a coin face, the first ten characters of the
  winner's address and amounts rendered by \<^verbatim>\<open>formatTokens\<close> (viem's
  \<^verbatim>\<open>formatUnits\<close>). The model keeps the template and the values it is filled with;
  the amounts are the arguments \<^verbatim>\<open>formatTokens\<close> receives.

  \<^item> \<open>CoinLanded c w p\<close>: "Coin landed c. Winner: w... won p USDC"
  \<^item> \<open>YouWon c p n\<close>: "You WON! Coin was c. You won p USDC (profit: +n USDC)"
  \<^item> \<open>YouLost c n w\<close>: "You LOST. Coin was c. Lost n USDC to w..."
\<close>

datatype coinflip_summary =
    CoinLanded coin string int
  | YouWon coin int int
  | YouLost coin int string

record CoinFlipGameResult =
  roomId :: int
  didIWin :: bool
  winner :: address
  loser :: address
  playerA :: address
  playerB :: address
  betAmount :: int
  payout :: int
  fee :: int
  netChange :: int
  randomWord :: int
  coinResult :: coin
  summary :: coinflip_summary
  completedAt :: int
  isHouseGame :: bool

record DiceRoom =
  id' :: int
  roomNumber :: int
  creator :: address
  betAmount :: int
  maxPlayers :: int
  currentPlayers :: int
  isActive :: bool
  hasStarted :: bool
  winningNumber :: int
  winner :: address
  createdAt :: int
  completedAt :: int
  isPrivate :: bool

text \<open>
  The Dice summary templates, with the values they are filled with:

  \<^item> \<open>NumberWonWinner n w p\<close>: "Number n won! Winner: w... won p USDC"
  \<^item> \<open>NumberWonYouWon n p\<close>: "Number n won! You WON p USDC!"
  \<^item> \<open>NumberWonYouLost n m\<close>: "Number n won. You LOST (picked m)"
  \<^item> \<open>NumberWonOther n w\<close>: "Number n won! Winner: w..."
\<close>

datatype dice_summary =
    NumberWonWinner int string int
  | NumberWonYouWon int int
  | NumberWonYouLost int int
  | NumberWonOther int string

record DiceGameResult =
  roomId :: int
  didIWin :: bool
  winner :: address
  winningNumber :: int
  myNumber :: int
  playerCount :: int
  players :: "address list"
  betAmount :: int
  payout :: int
  fee :: int
  netChange :: int
  randomWord :: int
  summary :: dice_summary
  completedAt :: int

section \<open>The client and the ledger it reads\<close>

text \<open>
  \<open>account\<close> is the address of the connected wallet (\<^verbatim>\<open>this.account?.address\<close>),
  absent when the client was built without a private key; \<open>walletClient\<close> tells
  whether the client has a wallet client to write with.
\<close>

record client =
  account :: "address option"
  walletClient :: bool

text \<open>
  \<^verbatim>\<open>getCoinFlipRoom\<close> and \<^verbatim>\<open>getDiceRoom\<close> copy the struct that
  \<^verbatim>\<open>readContract\<close> returns, field by field, and \<^verbatim>\<open>getDiceRoomPlayers\<close> returns
  the array it reads. The ledger is the outcome of each of these reads, and of the
  contract's \<^verbatim>\<open>getPlayerNumber\<close>, \<open>Inl\<close> when the read is rejected.
\<close>

record ledger =
  getCoinFlipRoom :: "int \<Rightarrow> error + CoinFlipRoom"
  getDiceRoom :: "int \<Rightarrow> error + DiceRoom"
  getDiceRoomPlayers :: "int \<Rightarrow> error + address list"
  getPlayerNumber :: "int \<Rightarrow> address \<Rightarrow> error + int"

section \<open>CoinFlip outcome derivation\<close>

text \<open>
  \<^verbatim>\<open>getCoinFlipGameResult(roomId, playerAddress?)\<close>. The observer \<open>player\<close> is
  \<^verbatim>\<open>playerAddress ?? this.account?.address\<close>; an address is never the empty string, so
  the truthiness tests \<^verbatim>\<open>player ? ... : false\<close> and \<^verbatim>\<open>if (player)\<close> are tests for its
  presence. \<^verbatim>\<open>===\<close> on strings is equality of the spellings. \<^verbatim>\<open>houseEdgeBps\<close> is an
  integer-valued number, which \<^verbatim>\<open>BigInt\<close> converts without loss.
\<close>

definition getCoinFlipGameResult ::
  "client \<Rightarrow> ledger \<Rightarrow> int \<Rightarrow> address option \<Rightarrow> error + CoinFlipGameResult" where
  "getCoinFlipGameResult this l rid playerAddress =
     (case getCoinFlipRoom l rid of
        Inl e \<Rightarrow> Inl e
      | Inr room \<Rightarrow>
          let player = (case playerAddress of Some p \<Rightarrow> Some p | None \<Rightarrow> account this) in
          if CoinFlipRoom.isActive room then Inl NotCompletedYet
          else if CoinFlipRoom.winner room = ZERO_ADDRESS then Inl CancelledOrNotCompleted
          else
            let winner = CoinFlipRoom.winner room;
                loser = (if winner = CoinFlipRoom.playerA room
                         then CoinFlipRoom.playerB room else CoinFlipRoom.playerA room);
                totalPot = CoinFlipRoom.betAmount room * 2;
                feeBps = houseEdgeBps room;
                fee = bigint_div (totalPot * feeBps) 10000;
                payout = totalPot - fee;
                didIWin = (case player of
                             Some p \<Rightarrow> toLowerCase winner = toLowerCase p
                           | None \<Rightarrow> False);
                isPlayer = (case player of
                              Some p \<Rightarrow>
                                toLowerCase p = toLowerCase (CoinFlipRoom.playerA room) \<or>
                                toLowerCase p = toLowerCase (CoinFlipRoom.playerB room)
                            | None \<Rightarrow> False);
                netChange = (if isPlayer
                             then (if didIWin then payout - CoinFlipRoom.betAmount room
                                   else - CoinFlipRoom.betAmount room)
                             else 0);
                coinResult = (if bigint_rem (CoinFlipRoom.randomWord room) 2 = 0
                              then heads else tails);
                netAbs = (if netChange < 0 then - netChange else netChange);
                summary = (case player of
                             None \<Rightarrow> CoinLanded coinResult (take 10 winner) payout
                           | Some p \<Rightarrow>
                               if didIWin then YouWon coinResult payout netAbs
                               else if isPlayer then YouLost coinResult netAbs (take 10 winner)
                               else CoinLanded coinResult (take 10 winner) payout)
            in Inr \<lparr> CoinFlipGameResult.roomId = CoinFlipRoom.id' room,
                     CoinFlipGameResult.didIWin = didIWin,
                     CoinFlipGameResult.winner = winner,
                     CoinFlipGameResult.loser = loser,
                     CoinFlipGameResult.playerA = CoinFlipRoom.playerA room,
                     CoinFlipGameResult.playerB = CoinFlipRoom.playerB room,
                     CoinFlipGameResult.betAmount = CoinFlipRoom.betAmount room,
                     CoinFlipGameResult.payout = payout,
                     CoinFlipGameResult.fee = fee,
                     CoinFlipGameResult.netChange = netChange,
                     CoinFlipGameResult.randomWord = CoinFlipRoom.randomWord room,
                     CoinFlipGameResult.coinResult = coinResult,
                     CoinFlipGameResult.summary = summary,
                     CoinFlipGameResult.completedAt = CoinFlipRoom.completedAt room,
                     CoinFlipGameResult.isHouseGame = CoinFlipRoom.isHouseGame room \<rparr>)"

section \<open>Dice outcome derivation\<close>

definition getPlayerDiceNumber ::
  "client \<Rightarrow> ledger \<Rightarrow> int \<Rightarrow> address option \<Rightarrow> error + int" where
  "getPlayerDiceNumber this l rid player =
     (case (case player of Some p \<Rightarrow> Some p | None \<Rightarrow> account this) of
        None \<Rightarrow> Inl NoAddressProvided
      | Some target \<Rightarrow> getPlayerNumber l rid target)"

text \<open>
  \<^verbatim>\<open>players.some(p => p.toLowerCase() === player.toLowerCase())\<close>, which
  \<^verbatim>\<open>getDiceGameResult\<close> evaluates up to three times on the same arguments.
\<close>

definition isInGame :: "address list \<Rightarrow> address \<Rightarrow> bool" where
  "isInGame ps player = list_ex (\<lambda>p. toLowerCase p = toLowerCase player) ps"

text \<open>
  \<^verbatim>\<open>getDiceGameResult(roomId, playerAddress?)\<close> reads the room and its players before
  it tests anything, and reads the observer's number only for an observer in the game.
\<close>

definition getDiceGameResult ::
  "client \<Rightarrow> ledger \<Rightarrow> int \<Rightarrow> address option \<Rightarrow> error + DiceGameResult" where
  "getDiceGameResult this l rid playerAddress =
     (case getDiceRoom l rid of
        Inl e \<Rightarrow> Inl e
      | Inr room \<Rightarrow>
     (case getDiceRoomPlayers l rid of
        Inl e \<Rightarrow> Inl e
      | Inr players' \<Rightarrow>
          let player = (case playerAddress of Some p \<Rightarrow> Some p | None \<Rightarrow> account this) in
          if DiceRoom.isActive room \<or> DiceRoom.winner room = ZERO_ADDRESS
          then Inl DiceNotCompletedYet
          else
            (case (case player of
                     None \<Rightarrow> Inr 0
                   | Some p \<Rightarrow>
                       if isInGame players' p then getPlayerDiceNumber this l rid (Some p)
                       else Inr 0) of
               Inl e \<Rightarrow> Inl e
             | Inr myNumber' \<Rightarrow>
                 let totalPot = DiceRoom.betAmount room * currentPlayers room;
                     fee = bigint_div (totalPot * 500) 10000;
                     payout = totalPot - fee;
                     didIWin = (case player of
                                  Some p \<Rightarrow> toLowerCase (DiceRoom.winner room) = toLowerCase p
                                | None \<Rightarrow> False);
                     inGame = (case player of Some p \<Rightarrow> isInGame players' p | None \<Rightarrow> False);
                     netChange = (if inGame
                                  then (if didIWin then payout - DiceRoom.betAmount room
                                        else - DiceRoom.betAmount room)
                                  else 0);
                     summary = (case player of
                                  None \<Rightarrow> NumberWonWinner (DiceRoom.winningNumber room)
                                            (take 10 (DiceRoom.winner room)) payout
                                | Some p \<Rightarrow>
                                    if didIWin then NumberWonYouWon (DiceRoom.winningNumber room) payout
                                    else if inGame
                                    then NumberWonYouLost (DiceRoom.winningNumber room) myNumber'
                                    else NumberWonOther (DiceRoom.winningNumber room)
                                           (take 10 (DiceRoom.winner room)))
                 in Inr \<lparr> roomId = DiceRoom.id' room,
                          didIWin = didIWin,
                          winner = DiceRoom.winner room,
                          winningNumber = DiceRoom.winningNumber room,
                          myNumber = myNumber',
                          playerCount = currentPlayers room,
                          players = players',
                          betAmount = DiceRoom.betAmount room,
                          payout = payout,
                          fee = fee,
                          netChange = netChange,
                          randomWord = 0,
                          summary = summary,
                          completedAt = DiceRoom.completedAt room \<rparr>)))"

section \<open>Waiting for a result\<close>

text \<open>
  \<^verbatim>\<open>WaitForResultOptions\<close>: both durations are optional; \<open>onProgress\<close> tells whether
  a callback was given. The default argument \<^verbatim>\<open>options = {}\<close> is \<open>noOptions\<close>.
\<close>

record WaitForResultOptions =
  timeout :: "int option"
  pollInterval :: "int option"
  onProgress :: bool


text \<open>
  The messages handed to \<^verbatim>\<open>onProgress\<close>:

  \<^item> \<open>WaitingForOpponent\<close>: "Waiting for opponent to join..."
  \<^item> \<open>OpponentJoined\<close>: "Opponent joined! Waiting for VRF result..."
  \<^item> \<open>WaitingForPlayers c m\<close>: "Waiting for players (c/m)..."
  \<^item> \<open>GameStarted\<close>: "Game started! Waiting for VRF result..."
\<close>

datatype progress =
    WaitingForOpponent
  | OpponentJoined
  | WaitingForPlayers int int
  | GameStarted

text \<open>
  A waiting session runs against a world it does not control: \<open>ledgerAt w k\<close> is the
  ledger as the \<open>k\<close>-th call of the session finds it (the poll of iteration \<open>k\<close>; the
  derivation that follows a settled poll is the next call), and \<open>lag w k\<close> is the
  wall-clock time, in milliseconds, that iteration \<open>k\<close> takes beyond the sleep it asks
  for: the round trip of its read and the overshoot of its timer.
\<close>

record world =
  ledgerAt :: "nat \<Rightarrow> ledger"
  lag :: "nat \<Rightarrow> int"

text \<open>
  What a session leaves behind: its outcome, the number of polls it issued, the value
  of \<^verbatim>\<open>Date.now() - startTime\<close> at its last loop test, and the progress messages
  it emitted, oldest first.
\<close>

record 'a waited =
  outcome :: "error + 'a"
  polls :: nat
  elapsed :: int
  notifications :: "progress list"

text \<open>
  The \<^verbatim>\<open>while (Date.now() - startTime < timeout)\<close> loop of
  \<^verbatim>\<open>waitForCoinFlipResult\<close>. \<open>i\<close> counts the polls issued so far, \<open>e\<close> is the elapsed
  time read by the loop test and \<open>log\<close> the messages emitted so far. The sleep
  \<^verbatim>\<open>setTimeout(resolve, pollInterval)\<close> lasts the interval (a timer never runs
  backwards: a negative interval counts as none) plus the lag of the iteration.
  The loop may run forever (an interval and lags of zero never advance the clock of
  the model), so it takes fuel, one unit for each loop test, and returns \<open>None\<close> when
  the fuel is used up. The progress callback is taken to return normally. On a settled
  poll the waiter calls \<^verbatim>\<open>getCoinFlipGameResult(roomId)\<close>, which reads the room
  again and takes the connected wallet as observer.
\<close>

fun pollCoinFlip ::
  "nat \<Rightarrow> client \<Rightarrow> world \<Rightarrow> int \<Rightarrow> int \<Rightarrow> int \<Rightarrow> bool \<Rightarrow> nat \<Rightarrow> int \<Rightarrow> progress list
     \<Rightarrow> CoinFlipGameResult waited option" where
  "pollCoinFlip 0 this w rid tmo pollInt onProg i e log = None"
| "pollCoinFlip (Suc fuel) this w rid tmo pollInt onProg i e log =
     (if e < tmo then
        (case getCoinFlipRoom (ledgerAt w i) rid of
           Inl err \<Rightarrow>
             Some \<lparr> outcome = Inl err, polls = Suc i, elapsed = e, notifications = log \<rparr>
         | Inr room \<Rightarrow>
             if \<not> CoinFlipRoom.isActive room \<and> CoinFlipRoom.winner room \<noteq> ZERO_ADDRESS
             then Some \<lparr> outcome = getCoinFlipGameResult this (ledgerAt w (Suc i)) rid None,
                         polls = Suc i, elapsed = e, notifications = log \<rparr>
             else if \<not> CoinFlipRoom.isActive room \<and> CoinFlipRoom.winner room = ZERO_ADDRESS
                     \<and> CoinFlipRoom.playerB room = ZERO_ADDRESS
             then Some \<lparr> outcome = Inl RoomCancelled,
                         polls = Suc i, elapsed = e, notifications = log \<rparr>
             else pollCoinFlip fuel this w rid tmo pollInt onProg (Suc i)
                    (e + lag w i + max 0 pollInt)
                    (if onProg
                     then log @ [if CoinFlipRoom.playerB room = ZERO_ADDRESS
                                 then WaitingForOpponent else OpponentJoined]
                     else log))
      else Some \<lparr> outcome = Inl (TimeoutGameResult tmo),
                   polls = i, elapsed = e, notifications = log \<rparr>)"

definition waitForCoinFlipResult ::
  "nat \<Rightarrow> client \<Rightarrow> world \<Rightarrow> int \<Rightarrow> WaitForResultOptions \<Rightarrow> CoinFlipGameResult waited option" where
  "waitForCoinFlipResult fuel this w rid options =
     (let tmo = (case timeout options of Some t \<Rightarrow> t | None \<Rightarrow> 120000);
          pollInt = (case pollInterval options of Some p \<Rightarrow> p | None \<Rightarrow> 2000)
      in pollCoinFlip fuel this w rid tmo pollInt (onProgress options) 0 0 [])"

text \<open>The loop of \<^verbatim>\<open>waitForDiceResult\<close>, on the same clock.\<close>

fun pollDice ::
  "nat \<Rightarrow> client \<Rightarrow> world \<Rightarrow> int \<Rightarrow> int \<Rightarrow> int \<Rightarrow> bool \<Rightarrow> nat \<Rightarrow> int \<Rightarrow> progress list
     \<Rightarrow> DiceGameResult waited option" where
  "pollDice 0 this w rid tmo pollInt onProg i e log = None"
| "pollDice (Suc fuel) this w rid tmo pollInt onProg i e log =
     (if e < tmo then
        (case getDiceRoom (ledgerAt w i) rid of
           Inl err \<Rightarrow>
             Some \<lparr> outcome = Inl err, polls = Suc i, elapsed = e, notifications = log \<rparr>
         | Inr room \<Rightarrow>
             if \<not> DiceRoom.isActive room \<and> DiceRoom.winner room \<noteq> ZERO_ADDRESS
             then Some \<lparr> outcome = getDiceGameResult this (ledgerAt w (Suc i)) rid None,
                         polls = Suc i, elapsed = e, notifications = log \<rparr>
             else pollDice fuel this w rid tmo pollInt onProg (Suc i)
                    (e + lag w i + max 0 pollInt)
                    (if onProg
                     then log @ [if \<not> hasStarted room
                                 then WaitingForPlayers (currentPlayers room) (maxPlayers room)
                                 else GameStarted]
                     else log))
      else Some \<lparr> outcome = Inl (TimeoutDiceResult tmo),
                   polls = i, elapsed = e, notifications = log \<rparr>)"

definition waitForDiceResult ::
  "nat \<Rightarrow> client \<Rightarrow> world \<Rightarrow> int \<Rightarrow> WaitForResultOptions \<Rightarrow> DiceGameResult waited option" where
  "waitForDiceResult fuel this w rid options =
     (let tmo = (case timeout options of Some t \<Rightarrow> t | None \<Rightarrow> 120000);
          pollInt = (case pollInterval options of Some p \<Rightarrow> p | None \<Rightarrow> 2000)
      in pollDice fuel this w rid tmo pollInt (onProgress options) 0 0 [])"

section \<open>Estimating the VRF cost\<close>

text \<open>
  What \<^verbatim>\<open>estimateFeesPerGas\<close> returns: either fee may be undefined.
\<close>

record FeeData =
  maxFeePerGas :: "int option"
  maxPriorityFeePerGas :: "int option"

record VrfCostEstimate =
  cost :: int
  maxFeePerGas :: int
  maxPriorityFeePerGas :: int

datatype contract = coinFlipGame | diceGame

text \<open>
  The argument of \<^verbatim>\<open>writeContract\<close>: the contract, the function name, its
  arguments, the triple \<^verbatim>\<open>(value, maxFeePerGas, maxPriorityFeePerGas)\<close> when the call
  attaches one, and the gas limit.
\<close>

datatype write_request =
  WriteRequest contract string "int list" "(int \<times> int \<times> int) option" int

type_synonym hash = string

datatype receipt = Receipt string

record TransactionResult =
  hash :: hash
  receipt :: receipt

text \<open>
  The node behind \<^verbatim>\<open>publicClient\<close> and \<^verbatim>\<open>walletClient\<close>: the outcome of each
  call the estimator and the write methods make, \<open>Inl\<close> when the call is rejected.
  \<open>vrfCallbackGasLimit\<close> is the read of that value on the core contract and
  \<open>estimateRequestPriceNative\<close> the read of the VRF wrapper's price function.
\<close>

record node =
  vrfCallbackGasLimit :: "error + int"
  estimateFeesPerGas :: "error + FeeData"
  getGasPrice :: "error + int"
  estimateRequestPriceNative :: "int \<Rightarrow> int \<Rightarrow> int \<Rightarrow> error + int"
  writeContract :: "write_request \<Rightarrow> error + hash"
  waitForTransactionReceipt :: "hash \<Rightarrow> error + receipt"

text \<open>The calls a method makes on the node, in the order it makes them.\<close>

datatype call =
    ReadVrfCallbackGasLimit
  | EstimateFeesPerGas
  | GetGasPrice
  | EstimateRequestPriceNative int int int
  | WriteContract write_request
  | WaitForTransactionReceipt hash

text \<open>
  The \<^verbatim>\<open>try { ... } catch { ... }\<close> block of \<^verbatim>\<open>estimateVrfCost\<close>: the pair
  \<^verbatim>\<open>(maxFeePerGas, maxPriorityFeePerGas)\<close> it assigns, with the calls it made. A
  rejected \<^verbatim>\<open>estimateFeesPerGas\<close> is caught; a rejected \<^verbatim>\<open>getGasPrice\<close> is not.
\<close>

definition currentGasPrices :: "node \<Rightarrow> call list \<times> (error + int \<times> int)" where
  "currentGasPrices n =
     (case estimateFeesPerGas n of
        Inr feeData \<Rightarrow>
          ([EstimateFeesPerGas],
           Inr ((case FeeData.maxFeePerGas feeData of Some x \<Rightarrow> x | None \<Rightarrow> 0),
                (case FeeData.maxPriorityFeePerGas feeData of
                   Some y \<Rightarrow> y | None \<Rightarrow> 1500000000)))
      | Inl _ \<Rightarrow>
          (case getGasPrice n of
             Inl e \<Rightarrow> ([EstimateFeesPerGas, GetGasPrice], Inl e)
           | Inr gasPrice \<Rightarrow>
               let maxPriorityFeePerGas' = 1500000000 in
               ([EstimateFeesPerGas, GetGasPrice],
                Inr ((if gasPrice > maxPriorityFeePerGas' then gasPrice
                      else maxPriorityFeePerGas'),
                     maxPriorityFeePerGas'))))"

definition estimateVrfCost :: "node \<Rightarrow> call list \<times> (error + VrfCostEstimate)" where
  "estimateVrfCost n =
     (case vrfCallbackGasLimit n of
        Inl e \<Rightarrow> ([ReadVrfCallbackGasLimit], Inl e)
      | Inr callbackGasLimit \<Rightarrow>
     (case currentGasPrices n of
        (calls, Inl e) \<Rightarrow> (ReadVrfCallbackGasLimit # calls, Inl e)
      | (calls, Inr (maxFeePerGas', maxPriorityFeePerGas')) \<Rightarrow>
          let safeMaxFeePerGas = (if maxFeePerGas' > maxPriorityFeePerGas'
                                  then maxFeePerGas' else maxPriorityFeePerGas');
              safeMaxFeePerGas = bigint_div (safeMaxFeePerGas * 140) 100;
              calls' = ReadVrfCallbackGasLimit # calls @
                         [EstimateRequestPriceNative callbackGasLimit 1 safeMaxFeePerGas]
          in (case estimateRequestPriceNative n callbackGasLimit 1 safeMaxFeePerGas of
                Inl e \<Rightarrow> (calls', Inl e)
              | Inr baseCost \<Rightarrow>
                  (calls', Inr \<lparr> cost = baseCost,
                                 maxFeePerGas = safeMaxFeePerGas,
                                 maxPriorityFeePerGas = maxPriorityFeePerGas' \<rparr>))))"

section \<open>Writes that pay for randomness\<close>

definition requireWallet :: "client \<Rightarrow> error + unit" where
  "requireWallet this =
     (if \<not> walletClient this \<or> account this = None then Inl WalletNotConfigured
      else Inr ())"

text \<open>
  The tail that the three methods share: \<^verbatim>\<open>writeContract\<close>, then
  \<^verbatim>\<open>waitForTransactionReceipt\<close> on the hash it returns.
\<close>

definition writeAndWait ::
  "node \<Rightarrow> call list \<Rightarrow> write_request \<Rightarrow> call list \<times> (error + TransactionResult)" where
  "writeAndWait n calls req =
     (case writeContract n req of
        Inl e \<Rightarrow> (calls @ [WriteContract req], Inl e)
      | Inr h \<Rightarrow>
          (case waitForTransactionReceipt n h of
             Inl e \<Rightarrow> (calls @ [WriteContract req, WaitForTransactionReceipt h], Inl e)
           | Inr r \<Rightarrow>
               (calls @ [WriteContract req, WaitForTransactionReceipt h],
                Inr \<lparr> hash = h, receipt = r \<rparr>)))"

definition vrfFees :: "VrfCostEstimate \<Rightarrow> (int \<times> int \<times> int) option" where
  "vrfFees vrfCost =
     Some (cost vrfCost, VrfCostEstimate.maxFeePerGas vrfCost,
           VrfCostEstimate.maxPriorityFeePerGas vrfCost)"

definition joinCoinFlipRoom ::
  "client \<Rightarrow> node \<Rightarrow> int \<Rightarrow> call list \<times> (error + TransactionResult)" where
  "joinCoinFlipRoom this n rid =
     (case requireWallet this of
        Inl e \<Rightarrow> ([], Inl e)
      | Inr _ \<Rightarrow>
          (case estimateVrfCost n of
             (calls, Inl e) \<Rightarrow> (calls, Inl e)
           | (calls, Inr vrfCost) \<Rightarrow>
               writeAndWait n calls
                 (WriteRequest coinFlipGame ''joinRoom'' [rid] (vrfFees vrfCost) 1200000)))"

text \<open>
  \<^verbatim>\<open>JoinDiceRoomOptions\<close> carries the room id and the two player counts the caller
  read; only the join that fills the room pays for randomness.
\<close>

definition joinDiceRoom ::
  "client \<Rightarrow> node \<Rightarrow> int \<Rightarrow> int \<Rightarrow> int \<Rightarrow> call list \<times> (error + TransactionResult)" where
  "joinDiceRoom this n rid currentPlayers' maxPlayers' =
     (case requireWallet this of
        Inl e \<Rightarrow> ([], Inl e)
      | Inr _ \<Rightarrow>
          let isLastPlayer = (currentPlayers' + 1 = maxPlayers') in
          if isLastPlayer then
            (case estimateVrfCost n of
               (calls, Inl e) \<Rightarrow> (calls, Inl e)
             | (calls, Inr vrfCost) \<Rightarrow>
                 writeAndWait n calls
                   (WriteRequest diceGame ''joinRoom'' [rid] (vrfFees vrfCost) 1200000))
          else writeAndWait n [] (WriteRequest diceGame ''joinRoom'' [rid] None 300000))"

definition startDiceGame ::
  "client \<Rightarrow> node \<Rightarrow> int \<Rightarrow> call list \<times> (error + TransactionResult)" where
  "startDiceGame this n rid =
     (case requireWallet this of
        Inl e \<Rightarrow> ([], Inl e)
      | Inr _ \<Rightarrow>
          (case estimateVrfCost n of
             (calls, Inl e) \<Rightarrow> (calls, Inl e)
           | (calls, Inr vrfCost) \<Rightarrow>
               writeAndWait n calls
                 (WriteRequest diceGame ''startGame'' [rid] (vrfFees vrfCost) 1200000)))"

section \<open>Example rooms, ledgers and nodes\<close>

definition alice :: address where
  "alice = ''0xabcdefabcdefabcdefabcdefabcdefabcdefabcd''"

text \<open>The address of \<open>alice\<close>, spelled with capital hex digits.\<close>

definition ALICE :: address where
  "ALICE = ''0xABCDEFABCDEFABCDEFABCDEFABCDEFABCDEFABCD''"

definition bob :: address where
  "bob = ''0x2222222222222222222222222222222222222222''"

definition carol :: address where
  "carol = ''0x3333333333333333333333333333333333333333''"

text \<open>A client built without a private key, and one with a wallet.\<close>

definition reader :: client where
  "reader = \<lparr> account = None, walletClient = False \<rparr>"

definition signer :: client where
  "signer = \<lparr> account = Some bob, walletClient = True \<rparr>"

text \<open>
  A settled CoinFlip room: \<open>alice\<close> created it, \<open>bob\<close> joined, each bet 1 USDC at a
  house edge of 500 bps, and \<open>alice\<close> won.
\<close>

definition settledRoom :: CoinFlipRoom where
  "settledRoom =
     \<lparr> CoinFlipRoom.id' = 1, roomNumber = 1, createdAt = 1704067200,
       playerA = alice, playerB = bob, betAmount = 1000000, isActive = False,
       winner = alice, isHouseGame = False, isChallenge = False,
       completedAt = 1704067260, randomWord = 8, vrfRequestId = 77,
       houseEdgeBps = 500 \<rparr>"

text \<open>
  A second settled room, with another bet and house edge, an odd random word, and the
  joiner \<open>bob\<close> as winner.
\<close>

definition tailsRoom :: CoinFlipRoom where
  "tailsRoom =
     \<lparr> CoinFlipRoom.id' = 2, roomNumber = 2, createdAt = 1704067300,
       playerA = alice, playerB = bob, betAmount = 2500000, isActive = False,
       winner = bob, isHouseGame = False, isChallenge = False,
       completedAt = 1704067360, randomWord = 7, vrfRequestId = 78,
       houseEdgeBps = 100 \<rparr>"

text \<open>A CoinFlip room still waiting for an opponent, and the same room cancelled.\<close>

definition waitingRoom :: CoinFlipRoom where
  "waitingRoom =
     \<lparr> CoinFlipRoom.id' = 1, roomNumber = 1, createdAt = 1704067200,
       playerA = alice, playerB = ZERO_ADDRESS, betAmount = 1000000, isActive = True,
       winner = ZERO_ADDRESS, isHouseGame = False, isChallenge = False,
       completedAt = 0, randomWord = 0, vrfRequestId = 0,
       houseEdgeBps = 500 \<rparr>"

definition cancelledRoom :: CoinFlipRoom where
  "cancelledRoom = waitingRoom \<lparr> CoinFlipRoom.isActive := False \<rparr>"

text \<open>
  The settled room with a bet of zero, and the settled room whose \<open>winner\<close> field
  spells the winner's address with capital hex digits.
\<close>

definition zeroBetRoom :: CoinFlipRoom where
  "zeroBetRoom = settledRoom \<lparr> CoinFlipRoom.betAmount := 0 \<rparr>"

definition recasedRoom :: CoinFlipRoom where
  "recasedRoom = settledRoom \<lparr> CoinFlipRoom.winner := ALICE \<rparr>"

text \<open>The settled room spelling \<open>alice\<close> with capitals both as winner and as creator.\<close>

definition capitalRoom :: CoinFlipRoom where
  "capitalRoom = settledRoom \<lparr> CoinFlipRoom.winner := ALICE, CoinFlipRoom.playerA := ALICE \<rparr>"

definition settledDiceRoom :: DiceRoom where
  "settledDiceRoom =
     \<lparr> DiceRoom.id' = 1, roomNumber = 1, creator = alice, betAmount = 1000000,
       maxPlayers = 3, currentPlayers = 3, isActive = False, hasStarted = True,
       winningNumber = 4, winner = bob, createdAt = 1704067200,
       completedAt = 1704067260, isPrivate = False \<rparr>"

definition waitingDiceRoom :: DiceRoom where
  "waitingDiceRoom =
     \<lparr> DiceRoom.id' = 1, roomNumber = 1, creator = alice, betAmount = 1000000,
       maxPlayers = 3, currentPlayers = 1, isActive = True, hasStarted = False,
       winningNumber = 0, winner = ZERO_ADDRESS, createdAt = 1704067200,
       completedAt = 0, isPrivate = False \<rparr>"

definition cancelledDiceRoom :: DiceRoom where
  "cancelledDiceRoom = waitingDiceRoom \<lparr> DiceRoom.isActive := False \<rparr>"

text \<open>
  A ledger that answers every CoinFlip read with the given room, and one that answers
  every Dice read with the given room and players, everyone having picked 2.
\<close>

definition coinFlipLedger :: "CoinFlipRoom \<Rightarrow> ledger" where
  "coinFlipLedger room =
     \<lparr> getCoinFlipRoom = (\<lambda>_. Inr room),
       getDiceRoom = (\<lambda>_. Inl (Rejected ''no such room'')),
       getDiceRoomPlayers = (\<lambda>_. Inl (Rejected ''no such room'')),
       getPlayerNumber = (\<lambda>_ _. Inl (Rejected ''no such room'')) \<rparr>"

definition diceLedger :: "DiceRoom \<Rightarrow> address list \<Rightarrow> ledger" where
  "diceLedger room ps =
     \<lparr> getCoinFlipRoom = (\<lambda>_. Inl (Rejected ''no such room'')),
       getDiceRoom = (\<lambda>_. Inr room),
       getDiceRoomPlayers = (\<lambda>_. Inr ps),
       getPlayerNumber = (\<lambda>_ _. Inr 2) \<rparr>"

text \<open>A world whose ledger never changes and whose iterations all lag by \<open>d\<close>.\<close>

definition steady :: "ledger \<Rightarrow> int \<Rightarrow> world" where
  "steady l d = \<lparr> ledgerAt = (\<lambda>_. l), lag = (\<lambda>_. d) \<rparr>"

text \<open>
  A world whose ledger never changes and whose fifth iteration ends one millisecond
  before its sleep is due.
\<close>

definition hasty :: "ledger \<Rightarrow> world" where
  "hasty l = \<lparr> ledgerAt = (\<lambda>_. l), lag = (\<lambda>k. if k = 4 then - 1 else 0) \<rparr>"


text \<open>Ten seconds of waiting with a poll every two, and a progress callback.\<close>

definition tenSeconds :: WaitForResultOptions where
  "tenSeconds = \<lparr> timeout = Some 10000, pollInterval = Some 2000, onProgress = True \<rparr>"

text \<open>
  A node whose fee estimate has a base fee below its priority fee, one whose fee
  estimate is rejected, and one that rejects every gas query.
\<close>

definition calmNode :: node where
  "calmNode =
     \<lparr> vrfCallbackGasLimit = Inr 200000,
       estimateFeesPerGas = Inr \<lparr> FeeData.maxFeePerGas = Some 1000000,
                                  FeeData.maxPriorityFeePerGas = Some 1000000005 \<rparr>,
       getGasPrice = Inr 3000000000,
       estimateRequestPriceNative = (\<lambda>gasLimit numWords gasPrice. Inr (gasLimit * gasPrice)),
       writeContract = (\<lambda>_. Inr ''0xfeed''),
       waitForTransactionReceipt = (\<lambda>_. Inr (Receipt ''success'')) \<rparr>"

text \<open>A node whose base fee is above its priority fee.\<close>

definition busyNode :: node where
  "busyNode =
     calmNode \<lparr> estimateFeesPerGas :=
                  Inr \<lparr> FeeData.maxFeePerGas = Some 3000000000,
                        FeeData.maxPriorityFeePerGas = Some 1000000000 \<rparr> \<rparr>"

definition legacyNode :: node where
  "legacyNode = calmNode \<lparr> estimateFeesPerGas := Inl (Rejected ''fees unavailable'') \<rparr>"

definition deafNode :: node where
  "deafNode = legacyNode \<lparr> getGasPrice := Inl (Rejected ''gas price unavailable'') \<rparr>"

section \<open>Arithmetic and the example addresses\<close>

lemma bigint_div_nonneg: "0 \<le> a \<Longrightarrow> 0 < b \<Longrightarrow> bigint_div a b = a div b"
  by (cases "a = 0") (simp_all add: bigint_div_def)

lemma bigint_rem_2: "bigint_rem x 2 = 0 \<longleftrightarrow> even x"
  by (auto simp add: bigint_rem_def sgn_if)

lemma lower_alice: "toLowerCase alice = alice"
  unfolding alice_def by code_simp

lemma lower_ALICE: "toLowerCase ALICE = alice"
  unfolding alice_def ALICE_def by code_simp

lemma lower_bob: "toLowerCase bob = bob"
  unfolding bob_def by code_simp

lemma lower_carol: "toLowerCase carol = carol"
  unfolding carol_def by code_simp

lemma distinct_addresses:
  "alice \<noteq> bob" "alice \<noteq> carol" "bob \<noteq> carol" "alice \<noteq> ZERO_ADDRESS" "bob \<noteq> ZERO_ADDRESS"
  "carol \<noteq> ZERO_ADDRESS" "ALICE \<noteq> alice" "ALICE \<noteq> bob" "ALICE \<noteq> ZERO_ADDRESS"
  "bob \<noteq> alice" "carol \<noteq> alice" "carol \<noteq> bob" "alice \<noteq> ALICE" "bob \<noteq> ALICE"
  by (simp_all add: alice_def bob_def carol_def ALICE_def ZERO_ADDRESS_def)

lemma prefixes:
  "take 10 alice = ''0xabcdefab''" "take 10 ALICE = ''0xABCDEFAB''"
  "take 10 bob = ''0x22222222''"
  by (simp_all add: alice_def ALICE_def bob_def)

section \<open>Outcome derivation\<close>

text \<open>The two example games, derived for one of their losers.\<close>

lemma settled_coinflip_bob:
  "getCoinFlipGameResult reader (coinFlipLedger settledRoom) 1 (Some bob) =
     Inr \<lparr> CoinFlipGameResult.roomId = 1, didIWin = False, winner = alice, loser = bob,
           playerA = alice, playerB = bob, betAmount = 1000000, payout = 1900000,
           fee = 100000, netChange = - 1000000, randomWord = 8, coinResult = heads,
           summary = YouLost heads 1000000 ''0xabcdefab'', completedAt = 1704067260,
           isHouseGame = False \<rparr>"
  by (simp add: getCoinFlipGameResult_def coinFlipLedger_def settledRoom_def Let_def
      distinct_addresses lower_alice lower_bob bigint_div_def bigint_rem_def prefixes)

lemma settled_dice_alice:
  "getDiceGameResult reader (diceLedger settledDiceRoom [alice, bob, carol]) 1 (Some alice) =
     Inr \<lparr> DiceGameResult.roomId = 1, didIWin = False, winner = bob, winningNumber = 4,
           myNumber = 2, playerCount = 3, players = [alice, bob, carol], betAmount = 1000000,
           payout = 2850000, fee = 150000, netChange = - 1000000, randomWord = 0,
           summary = NumberWonYouLost 4 2, completedAt = 1704067260 \<rparr>"
  by (simp add: getDiceGameResult_def diceLedger_def settledDiceRoom_def Let_def isInGame_def
      getPlayerDiceNumber_def distinct_addresses lower_alice lower_bob lower_carol bigint_div_def)

lemma coinflip_settled:
  assumes "getCoinFlipRoom l rid = Inr room" "\<not> CoinFlipRoom.isActive room"
    "CoinFlipRoom.winner room \<noteq> ZERO_ADDRESS"
  shows "\<exists>res. getCoinFlipGameResult this l rid pa = Inr res"
  using assms by (simp add: getCoinFlipGameResult_def Let_def)

lemma coinflip_Inr_settled:
  assumes "getCoinFlipRoom l rid = Inr room" "getCoinFlipGameResult this l rid pa = Inr res"
  shows "\<not> CoinFlipRoom.isActive room \<and> CoinFlipRoom.winner room \<noteq> ZERO_ADDRESS"
  using assms by (auto simp add: getCoinFlipGameResult_def Let_def split: if_splits)

text \<open>
  Every result that a derivation returns keeps the pot: payout is pot less fee, and
  the fee is the truncated share of the pot, which is the floor on unsigned amounts.
\<close>

lemma fee_payout_of_result:
  "(getCoinFlipRoom l rid = Inr room \<and> getCoinFlipGameResult this l rid pa = Inr res \<longrightarrow>
      CoinFlipGameResult.payout res
        = CoinFlipRoom.betAmount room * 2 - CoinFlipGameResult.fee res \<and>
      CoinFlipGameResult.payout res + CoinFlipGameResult.fee res
        = CoinFlipRoom.betAmount room * 2 \<and>
      (0 \<le> CoinFlipRoom.betAmount room \<and> 0 \<le> houseEdgeBps room \<longrightarrow>
         CoinFlipGameResult.fee res
           = (CoinFlipRoom.betAmount room * 2 * houseEdgeBps room) div 10000)) \<and>
   (getDiceRoom l' rid' = Inr droom \<and> getDiceGameResult this' l' rid' pa' = Inr dres \<longrightarrow>
      DiceGameResult.payout dres
        = DiceRoom.betAmount droom * currentPlayers droom - DiceGameResult.fee dres \<and>
      DiceGameResult.payout dres + DiceGameResult.fee dres
        = DiceRoom.betAmount droom * currentPlayers droom \<and>
      (0 \<le> DiceRoom.betAmount droom \<and> 0 \<le> currentPlayers droom \<longrightarrow>
         DiceGameResult.fee dres
           = (DiceRoom.betAmount droom * currentPlayers droom * 500) div 10000))"
proof (intro conjI impI)
  assume a: "getCoinFlipRoom l rid = Inr room \<and> getCoinFlipGameResult this l rid pa = Inr res"
  from a show "CoinFlipGameResult.payout res
      = CoinFlipRoom.betAmount room * 2 - CoinFlipGameResult.fee res"
    by (auto simp add: getCoinFlipGameResult_def Let_def split: if_splits)
  from a show "CoinFlipGameResult.payout res + CoinFlipGameResult.fee res
      = CoinFlipRoom.betAmount room * 2"
    by (auto simp add: getCoinFlipGameResult_def Let_def split: if_splits)
  assume "0 \<le> CoinFlipRoom.betAmount room \<and> 0 \<le> houseEdgeBps room"
  with a show "CoinFlipGameResult.fee res
      = (CoinFlipRoom.betAmount room * 2 * houseEdgeBps room) div 10000"
    by (auto simp add: getCoinFlipGameResult_def Let_def bigint_div_nonneg split: if_splits)
next
  assume a: "getDiceRoom l' rid' = Inr droom \<and> getDiceGameResult this' l' rid' pa' = Inr dres"
  from a show "DiceGameResult.payout dres
      = DiceRoom.betAmount droom * currentPlayers droom - DiceGameResult.fee dres"
    by (auto simp add: getDiceGameResult_def Let_def split: if_splits sum.splits)
  from a show "DiceGameResult.payout dres + DiceGameResult.fee dres
      = DiceRoom.betAmount droom * currentPlayers droom"
    by (auto simp add: getDiceGameResult_def Let_def split: if_splits sum.splits)
  assume "0 \<le> DiceRoom.betAmount droom \<and> 0 \<le> currentPlayers droom"
  with a show "DiceGameResult.fee dres
      = (DiceRoom.betAmount droom * currentPlayers droom * 500) div 10000"
    by (auto simp add: getDiceGameResult_def Let_def bigint_div_nonneg split: if_splits sum.splits)
qed

text \<open>
  A settled Dice room whose players are read gets a result, provided the read of the
  observer's number succeeds when the observer is in the game.
\<close>

lemma dice_settled:
  assumes "getDiceRoom l rid = Inr droom" "getDiceRoomPlayers l rid = Inr ps"
    "\<not> DiceRoom.isActive droom" "DiceRoom.winner droom \<noteq> ZERO_ADDRESS"
    "\<forall>p. (case pa of Some p \<Rightarrow> Some p | None \<Rightarrow> account this) = Some p \<and> isInGame ps p
       \<longrightarrow> (\<exists>m. getPlayerNumber l rid p = Inr m)"
  shows "\<exists>dres. getDiceGameResult this l rid pa = Inr dres"
proof (cases "case pa of Some p \<Rightarrow> Some p | None \<Rightarrow> account this")
  case None
  with assms show ?thesis
    by (simp add: getDiceGameResult_def Let_def)
next
  case (Some p)
  show ?thesis
  proof (cases "isInGame ps p")
    case True
    with assms(5) Some obtain m where "getPlayerNumber l rid p = Inr m" by blast
    with assms(1-4) Some True show ?thesis
      by (simp add: getDiceGameResult_def getPlayerDiceNumber_def Let_def)
  next
    case False
    with assms(1-4) Some show ?thesis
      by (simp add: getDiceGameResult_def Let_def)
  qed
qed

text \<open>
  Claim C1. Every settled CoinFlip room (read as inactive with a winner) gets a result
  from \<open>getCoinFlipGameResult\<close>, for any observer, whose payout is the pot
  \<open>betAmount * 2\<close> less the fee, so that payout and fee add up to the pot, and whose fee
  is \<open>floor (betAmount * 2 * houseEdgeBps / 10000)\<close>. Every settled Dice room whose
  players are read gets a result from \<open>getDiceGameResult\<close> (the read of the observer's
  number succeeding when the observer is in the game), with the same equations for the
  pot \<open>betAmount * currentPlayers\<close> and the fixed rate of 500 bps. No other room gets a
  result. The ledger's amounts, rates and counts are unsigned; on them the truncating
  division of \<^verbatim>\<open>bigint\<close> is the floor.
\<close>

theorem fee_payout_conservation:
  "(getCoinFlipRoom l rid = Inr room \<and> \<not> CoinFlipRoom.isActive room \<and>
    CoinFlipRoom.winner room \<noteq> ZERO_ADDRESS \<longrightarrow>
      (\<exists>res. getCoinFlipGameResult this l rid pa = Inr res \<and>
         CoinFlipGameResult.payout res
           = CoinFlipRoom.betAmount room * 2 - CoinFlipGameResult.fee res \<and>
         CoinFlipGameResult.payout res + CoinFlipGameResult.fee res
           = CoinFlipRoom.betAmount room * 2 \<and>
         (0 \<le> CoinFlipRoom.betAmount room \<and> 0 \<le> houseEdgeBps room \<longrightarrow>
            CoinFlipGameResult.fee res
              = (CoinFlipRoom.betAmount room * 2 * houseEdgeBps room) div 10000))) \<and>
   (getCoinFlipRoom l rid = Inr room \<and> getCoinFlipGameResult this l rid pa = Inr res' \<longrightarrow>
      \<not> CoinFlipRoom.isActive room \<and> CoinFlipRoom.winner room \<noteq> ZERO_ADDRESS) \<and>
   (getDiceRoom l' rid' = Inr droom \<and> getDiceRoomPlayers l' rid' = Inr ps \<and>
    \<not> DiceRoom.isActive droom \<and> DiceRoom.winner droom \<noteq> ZERO_ADDRESS \<and>
    (\<forall>p. (case pa' of Some p \<Rightarrow> Some p | None \<Rightarrow> account this') = Some p \<and> isInGame ps p
       \<longrightarrow> (\<exists>m. getPlayerNumber l' rid' p = Inr m)) \<longrightarrow>
      (\<exists>dres. getDiceGameResult this' l' rid' pa' = Inr dres \<and>
         DiceGameResult.payout dres
           = DiceRoom.betAmount droom * currentPlayers droom - DiceGameResult.fee dres \<and>
         DiceGameResult.payout dres + DiceGameResult.fee dres
           = DiceRoom.betAmount droom * currentPlayers droom \<and>
         (0 \<le> DiceRoom.betAmount droom \<and> 0 \<le> currentPlayers droom \<longrightarrow>
            DiceGameResult.fee dres
              = (DiceRoom.betAmount droom * currentPlayers droom * 500) div 10000))) \<and>
   (getDiceRoom l' rid' = Inr droom \<and> getDiceGameResult this' l' rid' pa' = Inr dres' \<longrightarrow>
      \<not> DiceRoom.isActive droom \<and> DiceRoom.winner droom \<noteq> ZERO_ADDRESS)"
proof (intro conjI impI)
  assume a: "getCoinFlipRoom l rid = Inr room \<and> \<not> CoinFlipRoom.isActive room \<and>
    CoinFlipRoom.winner room \<noteq> ZERO_ADDRESS"
  then obtain res where r: "getCoinFlipGameResult this l rid pa = Inr res"
    using coinflip_settled [of l rid room this pa] by blast
  with a fee_payout_of_result [of l rid room this pa res]
  show "\<exists>res. getCoinFlipGameResult this l rid pa = Inr res \<and>
         CoinFlipGameResult.payout res
           = CoinFlipRoom.betAmount room * 2 - CoinFlipGameResult.fee res \<and>
         CoinFlipGameResult.payout res + CoinFlipGameResult.fee res
           = CoinFlipRoom.betAmount room * 2 \<and>
         (0 \<le> CoinFlipRoom.betAmount room \<and> 0 \<le> houseEdgeBps room \<longrightarrow>
            CoinFlipGameResult.fee res
              = (CoinFlipRoom.betAmount room * 2 * houseEdgeBps room) div 10000)"
    by blast
next
  assume "getCoinFlipRoom l rid = Inr room \<and> getCoinFlipGameResult this l rid pa = Inr res'"
  then show "\<not> CoinFlipRoom.isActive room" "CoinFlipRoom.winner room \<noteq> ZERO_ADDRESS"
    using coinflip_Inr_settled [of l rid room this pa res'] by blast+
next
  assume a: "getDiceRoom l' rid' = Inr droom \<and> getDiceRoomPlayers l' rid' = Inr ps \<and>
    \<not> DiceRoom.isActive droom \<and> DiceRoom.winner droom \<noteq> ZERO_ADDRESS \<and>
    (\<forall>p. (case pa' of Some p \<Rightarrow> Some p | None \<Rightarrow> account this') = Some p \<and> isInGame ps p
       \<longrightarrow> (\<exists>m. getPlayerNumber l' rid' p = Inr m))"
  then obtain dres where r: "getDiceGameResult this' l' rid' pa' = Inr dres"
    using dice_settled [where l = l' and rid = rid' and droom = droom and ps = ps and pa = pa'
        and this = this'] by blast
  with a fee_payout_of_result [where l' = l' and rid' = rid' and droom = droom
      and this' = this' and pa' = pa' and dres = dres]
  show "\<exists>dres. getDiceGameResult this' l' rid' pa' = Inr dres \<and>
         DiceGameResult.payout dres
           = DiceRoom.betAmount droom * currentPlayers droom - DiceGameResult.fee dres \<and>
         DiceGameResult.payout dres + DiceGameResult.fee dres
           = DiceRoom.betAmount droom * currentPlayers droom \<and>
         (0 \<le> DiceRoom.betAmount droom \<and> 0 \<le> currentPlayers droom \<longrightarrow>
            DiceGameResult.fee dres
              = (DiceRoom.betAmount droom * currentPlayers droom * 500) div 10000)"
    by blast
next
  assume a: "getDiceRoom l' rid' = Inr droom \<and> getDiceGameResult this' l' rid' pa' = Inr dres'"
  then show "\<not> DiceRoom.isActive droom" "DiceRoom.winner droom \<noteq> ZERO_ADDRESS"
    by (auto simp add: getDiceGameResult_def Let_def split: sum.splits if_splits)
qed

text \<open>
  The spec's example: a bet of 1000000 at 500 bps gives a fee of 100000 and a payout
  of 1900000. A bet of 2500000 at 100 bps gives 50000 and 4950000. Three Dice players
  at a bet of 1000000 give 150000 and 2850000, here for the player \<open>alice\<close>.
\<close>

theorem fee_payout_conservation_witness:
  "(\<exists>res. getCoinFlipGameResult reader (coinFlipLedger settledRoom) 1 (Some bob) = Inr res \<and>
      CoinFlipGameResult.fee res = 100000 \<and> CoinFlipGameResult.payout res = 1900000 \<and>
      CoinFlipGameResult.payout res + CoinFlipGameResult.fee res = 2000000) \<and>
   (\<exists>res. getCoinFlipGameResult reader (coinFlipLedger tailsRoom) 2 None = Inr res \<and>
      CoinFlipGameResult.fee res = 50000 \<and> CoinFlipGameResult.payout res = 4950000 \<and>
      CoinFlipGameResult.payout res + CoinFlipGameResult.fee res = 5000000) \<and>
   (\<exists>dres. getDiceGameResult reader (diceLedger settledDiceRoom [alice, bob, carol]) 1 (Some alice)
        = Inr dres \<and>
      DiceGameResult.fee dres = 150000 \<and> DiceGameResult.payout dres = 2850000 \<and>
      DiceGameResult.payout dres + DiceGameResult.fee dres = 3000000)"
proof -
  have s: "\<not> CoinFlipRoom.isActive settledRoom \<and> CoinFlipRoom.winner settledRoom \<noteq> ZERO_ADDRESS"
    "\<not> CoinFlipRoom.isActive tailsRoom \<and> CoinFlipRoom.winner tailsRoom \<noteq> ZERO_ADDRESS"
    by (simp_all add: settledRoom_def tailsRoom_def distinct_addresses)
  have f: "CoinFlipRoom.betAmount settledRoom = 1000000" "houseEdgeBps settledRoom = 500"
    "CoinFlipRoom.betAmount tailsRoom = 2500000" "houseEdgeBps tailsRoom = 100"
    "DiceRoom.betAmount settledDiceRoom = 1000000" "currentPlayers settledDiceRoom = 3"
    by (simp_all add: settledRoom_def tailsRoom_def settledDiceRoom_def)
  have r: "getCoinFlipRoom (coinFlipLedger room) rid = Inr room" for room rid
    by (simp add: coinFlipLedger_def)
  have d: "getDiceRoom (diceLedger settledDiceRoom [alice, bob, carol]) 1 = Inr settledDiceRoom"
    "getDiceRoomPlayers (diceLedger settledDiceRoom [alice, bob, carol]) 1 = Inr [alice, bob, carol]"
    "\<forall>p. (case Some alice of Some p \<Rightarrow> Some p | None \<Rightarrow> account reader) = Some p \<and>
         isInGame [alice, bob, carol] p \<longrightarrow>
         (\<exists>m. getPlayerNumber (diceLedger settledDiceRoom [alice, bob, carol]) 1 p = Inr m)"
    "\<not> DiceRoom.isActive settledDiceRoom \<and> DiceRoom.winner settledDiceRoom \<noteq> ZERO_ADDRESS"
    by (simp_all add: diceLedger_def settledDiceRoom_def distinct_addresses)
  from fee_payout_conservation [where l = "coinFlipLedger settledRoom" and rid = 1
      and room = settledRoom and this = reader and pa = "Some bob"] r s(1)
  obtain res where a0:
    "getCoinFlipGameResult reader (coinFlipLedger settledRoom) 1 (Some bob) = Inr res"
    "CoinFlipGameResult.payout res
       = CoinFlipRoom.betAmount settledRoom * 2 - CoinFlipGameResult.fee res"
    "0 \<le> CoinFlipRoom.betAmount settledRoom \<and> 0 \<le> houseEdgeBps settledRoom \<longrightarrow>
       CoinFlipGameResult.fee res
         = (CoinFlipRoom.betAmount settledRoom * 2 * houseEdgeBps settledRoom) div 10000"
    by blast
  then have a: "\<exists>res. getCoinFlipGameResult reader (coinFlipLedger settledRoom) 1 (Some bob) = Inr res \<and>
      CoinFlipGameResult.fee res = 100000 \<and> CoinFlipGameResult.payout res = 1900000 \<and>
      CoinFlipGameResult.payout res + CoinFlipGameResult.fee res = 2000000"
    by (simp add: f)
  from fee_payout_conservation [where l = "coinFlipLedger tailsRoom" and rid = 2
      and room = tailsRoom and this = reader and pa = None] r s(2)
  obtain res where b0:
    "getCoinFlipGameResult reader (coinFlipLedger tailsRoom) 2 None = Inr res"
    "CoinFlipGameResult.payout res
       = CoinFlipRoom.betAmount tailsRoom * 2 - CoinFlipGameResult.fee res"
    "0 \<le> CoinFlipRoom.betAmount tailsRoom \<and> 0 \<le> houseEdgeBps tailsRoom \<longrightarrow>
       CoinFlipGameResult.fee res
         = (CoinFlipRoom.betAmount tailsRoom * 2 * houseEdgeBps tailsRoom) div 10000"
    by blast
  then have b: "\<exists>res. getCoinFlipGameResult reader (coinFlipLedger tailsRoom) 2 None = Inr res \<and>
      CoinFlipGameResult.fee res = 50000 \<and> CoinFlipGameResult.payout res = 4950000 \<and>
      CoinFlipGameResult.payout res + CoinFlipGameResult.fee res = 5000000"
    by (simp add: f)
  from fee_payout_conservation [where l' = "diceLedger settledDiceRoom [alice, bob, carol]"
      and rid' = 1 and droom = settledDiceRoom and ps = "[alice, bob, carol]" and this' = reader
      and pa' = "Some alice"] d
  obtain dres where c0:
    "getDiceGameResult reader (diceLedger settledDiceRoom [alice, bob, carol]) 1 (Some alice)
       = Inr dres"
    "DiceGameResult.payout dres
       = DiceRoom.betAmount settledDiceRoom * currentPlayers settledDiceRoom
         - DiceGameResult.fee dres"
    "0 \<le> DiceRoom.betAmount settledDiceRoom \<and> 0 \<le> currentPlayers settledDiceRoom \<longrightarrow>
       DiceGameResult.fee dres
         = (DiceRoom.betAmount settledDiceRoom * currentPlayers settledDiceRoom * 500) div 10000"
    by blast
  then have c: "\<exists>dres. getDiceGameResult reader (diceLedger settledDiceRoom [alice, bob, carol]) 1
        (Some alice) = Inr dres \<and>
      DiceGameResult.fee dres = 150000 \<and> DiceGameResult.payout dres = 2850000 \<and>
      DiceGameResult.payout dres + DiceGameResult.fee dres = 3000000"
    by (simp add: f)
  from a b c show ?thesis by blast
qed

text \<open>The coin face of every returned result follows the parity of the random word.\<close>

lemma coinResult_of_result:
  assumes "getCoinFlipRoom l rid = Inr room" "getCoinFlipGameResult this l rid pa = Inr res"
  shows "(coinResult res = heads \<longleftrightarrow> even (CoinFlipRoom.randomWord room)) \<and>
         (coinResult res = tails \<longleftrightarrow> odd (CoinFlipRoom.randomWord room))"
  using assms by (auto simp add: getCoinFlipGameResult_def Let_def bigint_rem_2 split: if_splits)

text \<open>
  Claim C2. Every settled CoinFlip room gets a result from \<open>getCoinFlipGameResult\<close>, for
  any observer, and its \<open>coinResult\<close> is \<open>heads\<close> exactly when the room's \<open>randomWord\<close>
  is even and \<open>tails\<close> exactly when it is odd: the face is a function of that parity
  alone, whoever the observer is and whatever the other fields hold.
\<close>

theorem coinResult_parity:
  assumes "getCoinFlipRoom l rid = Inr room" "\<not> CoinFlipRoom.isActive room"
    "CoinFlipRoom.winner room \<noteq> ZERO_ADDRESS"
  shows "\<exists>res. getCoinFlipGameResult this l rid pa = Inr res \<and>
           (coinResult res = heads \<longleftrightarrow> even (CoinFlipRoom.randomWord room)) \<and>
           (coinResult res = tails \<longleftrightarrow> odd (CoinFlipRoom.randomWord room))"
proof -
  from assms obtain res where r: "getCoinFlipGameResult this l rid pa = Inr res"
    using coinflip_settled [of l rid room this pa] by blast
  with coinResult_of_result [OF assms(1) r] show ?thesis by blast
qed

text \<open>A random word of 8 lands heads and one of 7 lands tails, for any observer.\<close>

theorem coinResult_parity_witness:
  "(\<exists>res. getCoinFlipGameResult reader (coinFlipLedger settledRoom) 1 (Some bob) = Inr res \<and>
      CoinFlipRoom.randomWord settledRoom = 8 \<and> coinResult res = heads) \<and>
   (\<exists>res. getCoinFlipGameResult reader (coinFlipLedger tailsRoom) 2 (Some bob) = Inr res \<and>
      CoinFlipRoom.randomWord tailsRoom = 7 \<and> coinResult res = tails) \<and>
   (\<exists>res. getCoinFlipGameResult signer (coinFlipLedger tailsRoom) 2 None = Inr res \<and>
      coinResult res = tails)"
proof -
  have r: "getCoinFlipRoom (coinFlipLedger room) rid = Inr room" for room rid
    by (simp add: coinFlipLedger_def)
  have s: "\<not> CoinFlipRoom.isActive settledRoom" "CoinFlipRoom.winner settledRoom \<noteq> ZERO_ADDRESS"
    "\<not> CoinFlipRoom.isActive tailsRoom" "CoinFlipRoom.winner tailsRoom \<noteq> ZERO_ADDRESS"
    by (simp_all add: settledRoom_def tailsRoom_def distinct_addresses)
  have w: "CoinFlipRoom.randomWord settledRoom = 8" "CoinFlipRoom.randomWord tailsRoom = 7"
    by (simp_all add: settledRoom_def tailsRoom_def)
  from coinResult_parity [OF r s(1,2), of reader 1 "Some bob"] w
  have a: "\<exists>res. getCoinFlipGameResult reader (coinFlipLedger settledRoom) 1 (Some bob) = Inr res \<and>
      CoinFlipRoom.randomWord settledRoom = 8 \<and> coinResult res = heads"
    by auto
  from coinResult_parity [OF r s(3,4), of reader 2 "Some bob"] w
  have b: "\<exists>res. getCoinFlipGameResult reader (coinFlipLedger tailsRoom) 2 (Some bob) = Inr res \<and>
      CoinFlipRoom.randomWord tailsRoom = 7 \<and> coinResult res = tails"
    by auto
  from coinResult_parity [OF r s(3,4), of signer 2 None] w
  have c: "\<exists>res. getCoinFlipGameResult signer (coinFlipLedger tailsRoom) 2 None = Inr res \<and>
      coinResult res = tails"
    by auto
  from a b c show ?thesis by blast
qed

text \<open>
  Claim C10. Every result that \<open>getDiceGameResult\<close> returns has \<open>randomWord = 0\<close>: the
  Dice room struct carries no random word, and the result never surfaces one.
\<close>

theorem dice_randomWord_zero:
  "getDiceGameResult this l rid pa = Inr res \<Longrightarrow> DiceGameResult.randomWord res = 0"
  by (auto simp add: getDiceGameResult_def Let_def split: sum.splits if_splits option.splits)

theorem dice_randomWord_zero_witness:
  "\<exists>res. getDiceGameResult reader (diceLedger settledDiceRoom [alice, bob, carol]) 1 (Some alice)
       = Inr res \<and> DiceGameResult.randomWord res = 0"
proof -
  obtain res where h:
    "getDiceGameResult reader (diceLedger settledDiceRoom [alice, bob, carol]) 1 (Some alice)
       = Inr res"
    by (simp add: settled_dice_alice)
  from dice_randomWord_zero [OF h] h show ?thesis by blast
qed

text \<open>
  Claim C4, as amended. On a room read as active, \<open>getCoinFlipGameResult\<close> fails with its
  "not completed yet" error whatever the other fields hold, and on an inactive room whose
  winner is the zero address it fails with the distinct "cancelled or not completed"
  error. \<open>getDiceGameResult\<close> has one guard for both conditions: once the room and its
  players are read, it fails with its own "not completed yet" error when the room is
  active or the winner is the zero address, and has no separate error for the second.
\<close>

theorem derivation_error_conditions:
  "(getCoinFlipRoom l rid = Inr room \<and> CoinFlipRoom.isActive room \<longrightarrow>
      getCoinFlipGameResult this l rid pa = Inl NotCompletedYet) \<and>
   (getCoinFlipRoom l rid = Inr room \<and> \<not> CoinFlipRoom.isActive room
      \<and> CoinFlipRoom.winner room = ZERO_ADDRESS \<longrightarrow>
      getCoinFlipGameResult this l rid pa = Inl CancelledOrNotCompleted) \<and>
   (getDiceRoom l' rid' = Inr droom \<and> getDiceRoomPlayers l' rid' = Inr ps
      \<and> (DiceRoom.isActive droom \<or> DiceRoom.winner droom = ZERO_ADDRESS) \<longrightarrow>
      getDiceGameResult this' l' rid' pa' = Inl DiceNotCompletedYet)"
  by (auto simp add: getCoinFlipGameResult_def getDiceGameResult_def Let_def)

theorem derivation_error_conditions_witness:
  "getCoinFlipGameResult reader (coinFlipLedger waitingRoom) 1 None = Inl NotCompletedYet \<and>
   getCoinFlipGameResult reader (coinFlipLedger cancelledRoom) 1 None
     = Inl CancelledOrNotCompleted \<and>
   getDiceGameResult reader (diceLedger waitingDiceRoom [alice]) 1 None
     = Inl DiceNotCompletedYet \<and>
   getDiceGameResult reader (diceLedger cancelledDiceRoom [alice]) 1 None
     = Inl DiceNotCompletedYet"
  using derivation_error_conditions [of "coinFlipLedger waitingRoom" 1 waitingRoom reader None
      "diceLedger waitingDiceRoom [alice]" 1 waitingDiceRoom "[alice]" reader None]
    derivation_error_conditions [of "coinFlipLedger cancelledRoom" 1 cancelledRoom reader None
      "diceLedger cancelledDiceRoom [alice]" 1 cancelledDiceRoom "[alice]" reader None]
  by (simp add: coinFlipLedger_def diceLedger_def waitingRoom_def cancelledRoom_def
      waitingDiceRoom_def cancelledDiceRoom_def)

text \<open>
  The cancelled Dice room (inactive, winner the zero address) gets the very error of
  the active one.
\<close>

lemma cancelled_dice_eval:
  "getDiceGameResult reader (diceLedger cancelledDiceRoom [alice]) 1 None = Inl DiceNotCompletedYet"
  "getDiceGameResult reader (diceLedger waitingDiceRoom [alice]) 1 None = Inl DiceNotCompletedYet"
  by (simp_all add: getDiceGameResult_def diceLedger_def cancelledDiceRoom_def waitingDiceRoom_def)

theorem dice_cancelled_error_counterexample:
  "\<not> DiceRoom.isActive cancelledDiceRoom \<and> DiceRoom.winner cancelledDiceRoom = ZERO_ADDRESS \<and>
   DiceRoom.isActive waitingDiceRoom \<and>
   getDiceGameResult reader (diceLedger cancelledDiceRoom [alice]) 1 None
     = getDiceGameResult reader (diceLedger waitingDiceRoom [alice]) 1 None"
  by (simp add: cancelled_dice_eval) (simp add: cancelledDiceRoom_def waitingDiceRoom_def)

lemma div_below: "x < b * 10000 \<Longrightarrow> x div 10000 < (b::int)"
  by arith

lemma payout_above_bet:
  assumes "0 < b" "0 \<le> h" "h < 5000"
  shows "bigint_div (b * 2 * h) 10000 < (b::int)"
proof -
  have "0 \<le> b * 2 * h" using assms by simp
  then have "bigint_div (b * 2 * h) 10000 = (b * 2 * h) div 10000"
    by (simp add: bigint_div_nonneg)
  moreover have "b * 2 * h < b * 10000"
  proof -
    have "2 * h < 10000" using assms by simp
    then have "b * (2 * h) < b * 10000" using assms(1) by (rule mult_strict_left_mono)
    then show ?thesis by (simp add: mult.assoc)
  qed
  then have "(b * 2 * h) div 10000 < b" by (rule div_below)
  ultimately show ?thesis by simp
qed

text \<open>
  For a settled CoinFlip room and an observer \<open>p\<close>, derivation succeeds and the
  observer's role fixes \<open>netChange\<close>.
\<close>

lemma coinflip_netChange:
  assumes "getCoinFlipRoom l rid = Inr room" "\<not> CoinFlipRoom.isActive room"
    "CoinFlipRoom.winner room \<noteq> ZERO_ADDRESS"
  shows "\<exists>res. getCoinFlipGameResult this l rid (Some p) = Inr res \<and>
     (let won = (toLowerCase (CoinFlipRoom.winner room) = toLowerCase p);
          participant = (toLowerCase p = toLowerCase (CoinFlipRoom.playerA room) \<or>
                         toLowerCase p = toLowerCase (CoinFlipRoom.playerB room));
          bet = CoinFlipRoom.betAmount room
      in CoinFlipGameResult.didIWin res = won \<and>
         (participant \<and> won \<longrightarrow>
            CoinFlipGameResult.netChange res = CoinFlipGameResult.payout res - bet) \<and>
         (participant \<and> \<not> won \<longrightarrow> CoinFlipGameResult.netChange res = - bet) \<and>
         (\<not> participant \<longrightarrow> CoinFlipGameResult.netChange res = 0) \<and>
         (0 < bet \<and> 0 \<le> houseEdgeBps room \<and> houseEdgeBps room < 5000 \<longrightarrow>
            (CoinFlipGameResult.netChange res = CoinFlipGameResult.payout res - bet
               \<longleftrightarrow> participant \<and> won) \<and>
            (CoinFlipGameResult.netChange res = - bet \<longleftrightarrow> participant \<and> \<not> won) \<and>
            (CoinFlipGameResult.netChange res = 0 \<longleftrightarrow> \<not> participant)) \<and>
         (account this = None \<longrightarrow>
            (\<exists>res0. getCoinFlipGameResult this l rid None = Inr res0 \<and>
               \<not> CoinFlipGameResult.didIWin res0 \<and> CoinFlipGameResult.netChange res0 = 0 \<and>
               (\<not> participant \<and> \<not> won \<longrightarrow> res = res0))))"
proof -
  have gt: "0 < CoinFlipRoom.betAmount room \<and> 0 \<le> houseEdgeBps room \<and> houseEdgeBps room < 5000
    \<Longrightarrow> bigint_div (CoinFlipRoom.betAmount room * 2 * houseEdgeBps room) 10000
        < CoinFlipRoom.betAmount room"
    using payout_above_bet by blast
  show ?thesis
    using assms gt
    by (auto simp add: getCoinFlipGameResult_def Let_def)
qed

text \<open>
  For a settled Dice room whose players are read, derivation without an observer
  succeeds and reads no dice number; an observer who is neither a player nor the winner
  gets the same three values.
\<close>

lemma dice_no_observer:
  assumes "getDiceRoom l rid = Inr droom" "getDiceRoomPlayers l rid = Inr ps"
    "\<not> DiceRoom.isActive droom" "DiceRoom.winner droom \<noteq> ZERO_ADDRESS" "account this = None"
  shows "\<exists>dres. getDiceGameResult this l rid None = Inr dres \<and>
           \<not> DiceGameResult.didIWin dres \<and> DiceGameResult.netChange dres = 0 \<and>
           myNumber dres = 0 \<and>
           (\<not> isInGame ps q \<and> toLowerCase (DiceRoom.winner droom) \<noteq> toLowerCase q \<longrightarrow>
              (\<exists>dres'. getDiceGameResult this l rid (Some q) = Inr dres' \<and>
                 \<not> DiceGameResult.didIWin dres' \<and> DiceGameResult.netChange dres' = 0 \<and>
                 myNumber dres' = 0))"
  using assms by (simp add: getDiceGameResult_def Let_def)

text \<open>
  Claim C3, as amended. For a settled CoinFlip room and an observer \<open>p\<close>, derivation
  succeeds and the observer's role fixes \<open>netChange\<close>: \<open>payout - betAmount\<close> for a
  participant who is the winner, \<open>- betAmount\<close> for a participant who is not, \<open>0\<close> for
  anyone else (addresses compared case-insensitively). The converses hold when the three
  values differ, which they do for a positive bet and a house edge below 5000 bps. With
  no observer at all (no address given, no wallet) derivation succeeds with
  \<open>didIWin = false\<close> and \<open>netChange = 0\<close>, and the result is the one a non-participant
  who is not the winner gets. Dice derivation without an observer succeeds likewise,
  with \<open>didIWin = false\<close>, \<open>netChange = 0\<close> and \<open>myNumber = 0\<close>, the values of an
  observer who is neither a player nor the winner.
\<close>

theorem netChange_by_role:
  "(getCoinFlipRoom l rid = Inr room \<and> \<not> CoinFlipRoom.isActive room \<and>
    CoinFlipRoom.winner room \<noteq> ZERO_ADDRESS \<longrightarrow>
    (\<exists>res. getCoinFlipGameResult this l rid (Some p) = Inr res \<and>
         (let won = (toLowerCase (CoinFlipRoom.winner room) = toLowerCase p);
              participant = (toLowerCase p = toLowerCase (CoinFlipRoom.playerA room) \<or>
                             toLowerCase p = toLowerCase (CoinFlipRoom.playerB room));
              bet = CoinFlipRoom.betAmount room
          in CoinFlipGameResult.didIWin res = won \<and>
             (participant \<and> won \<longrightarrow>
                CoinFlipGameResult.netChange res = CoinFlipGameResult.payout res - bet) \<and>
             (participant \<and> \<not> won \<longrightarrow> CoinFlipGameResult.netChange res = - bet) \<and>
             (\<not> participant \<longrightarrow> CoinFlipGameResult.netChange res = 0) \<and>
             (0 < bet \<and> 0 \<le> houseEdgeBps room \<and> houseEdgeBps room < 5000 \<longrightarrow>
                (CoinFlipGameResult.netChange res = CoinFlipGameResult.payout res - bet
                   \<longleftrightarrow> participant \<and> won) \<and>
                (CoinFlipGameResult.netChange res = - bet \<longleftrightarrow> participant \<and> \<not> won) \<and>
                (CoinFlipGameResult.netChange res = 0 \<longleftrightarrow> \<not> participant)) \<and>
             (account this = None \<longrightarrow>
                (\<exists>res0. getCoinFlipGameResult this l rid None = Inr res0 \<and>
                   \<not> CoinFlipGameResult.didIWin res0 \<and> CoinFlipGameResult.netChange res0 = 0 \<and>
                   (\<not> participant \<and> \<not> won \<longrightarrow> res = res0)))))) \<and>
   (getDiceRoom l' rid' = Inr droom \<and> getDiceRoomPlayers l' rid' = Inr ps \<and>
    \<not> DiceRoom.isActive droom \<and> DiceRoom.winner droom \<noteq> ZERO_ADDRESS \<and>
    account this' = None \<longrightarrow>
    (\<exists>dres. getDiceGameResult this' l' rid' None = Inr dres \<and>
       \<not> DiceGameResult.didIWin dres \<and> DiceGameResult.netChange dres = 0 \<and>
       myNumber dres = 0 \<and>
       (\<not> isInGame ps q \<and> toLowerCase (DiceRoom.winner droom) \<noteq> toLowerCase q \<longrightarrow>
          (\<exists>dres'. getDiceGameResult this' l' rid' (Some q) = Inr dres' \<and>
             \<not> DiceGameResult.didIWin dres' \<and> DiceGameResult.netChange dres' = 0 \<and>
             myNumber dres' = 0))))"
  using coinflip_netChange [of l rid room this p] dice_no_observer [of l' rid' droom ps this' q]
  by blast

lemma settled_read: "getCoinFlipRoom (coinFlipLedger room) rid = Inr room"
  by (simp add: coinFlipLedger_def)

lemma settledRoom_fields:
  "\<not> CoinFlipRoom.isActive settledRoom" "CoinFlipRoom.winner settledRoom = alice"
  "CoinFlipRoom.playerA settledRoom = alice" "CoinFlipRoom.playerB settledRoom = bob"
  "CoinFlipRoom.betAmount settledRoom = 1000000" "houseEdgeBps settledRoom = 500"
  by (simp_all add: settledRoom_def)

text \<open>The winner \<open>alice\<close>, the loser \<open>bob\<close> and the outsider \<open>carol\<close> of the example room.\<close>

theorem netChange_by_role_witness:
  "(\<exists>res. getCoinFlipGameResult reader (coinFlipLedger settledRoom) 1 (Some alice) = Inr res \<and>
      CoinFlipGameResult.didIWin res \<and>
      CoinFlipGameResult.netChange res = CoinFlipGameResult.payout res - 1000000 \<and>
      CoinFlipGameResult.netChange res \<noteq> 0) \<and>
   (\<exists>res. getCoinFlipGameResult reader (coinFlipLedger settledRoom) 1 (Some bob) = Inr res \<and>
      \<not> CoinFlipGameResult.didIWin res \<and> CoinFlipGameResult.netChange res = - 1000000) \<and>
   (\<exists>res. getCoinFlipGameResult reader (coinFlipLedger settledRoom) 1 (Some carol) = Inr res \<and>
      \<not> CoinFlipGameResult.didIWin res \<and> CoinFlipGameResult.netChange res = 0 \<and>
      getCoinFlipGameResult reader (coinFlipLedger settledRoom) 1 None = Inr res) \<and>
   (\<exists>dres. getDiceGameResult reader (diceLedger settledDiceRoom [alice, bob]) 1 None = Inr dres \<and>
      \<not> DiceGameResult.didIWin dres \<and> DiceGameResult.netChange dres = 0)"
proof -
  have s: "\<not> CoinFlipRoom.isActive settledRoom" "CoinFlipRoom.winner settledRoom \<noteq> ZERO_ADDRESS"
    by (simp_all add: settledRoom_fields distinct_addresses)
  have n: "account reader = None" by (simp add: reader_def)
  have t: "\<exists>res. getCoinFlipGameResult reader (coinFlipLedger settledRoom) 1 (Some p) = Inr res \<and>
     (let won = (toLowerCase (CoinFlipRoom.winner settledRoom) = toLowerCase p);
          participant = (toLowerCase p = toLowerCase (CoinFlipRoom.playerA settledRoom) \<or>
                         toLowerCase p = toLowerCase (CoinFlipRoom.playerB settledRoom));
          bet = CoinFlipRoom.betAmount settledRoom
      in CoinFlipGameResult.didIWin res = won \<and>
         (participant \<and> won \<longrightarrow>
            CoinFlipGameResult.netChange res = CoinFlipGameResult.payout res - bet) \<and>
         (participant \<and> \<not> won \<longrightarrow> CoinFlipGameResult.netChange res = - bet) \<and>
         (\<not> participant \<longrightarrow> CoinFlipGameResult.netChange res = 0) \<and>
         (0 < bet \<and> 0 \<le> houseEdgeBps settledRoom \<and> houseEdgeBps settledRoom < 5000 \<longrightarrow>
            (CoinFlipGameResult.netChange res = CoinFlipGameResult.payout res - bet
               \<longleftrightarrow> participant \<and> won) \<and>
            (CoinFlipGameResult.netChange res = - bet \<longleftrightarrow> participant \<and> \<not> won) \<and>
            (CoinFlipGameResult.netChange res = 0 \<longleftrightarrow> \<not> participant)) \<and>
         (account reader = None \<longrightarrow>
            (\<exists>res0. getCoinFlipGameResult reader (coinFlipLedger settledRoom) 1 None = Inr res0 \<and>
               \<not> CoinFlipGameResult.didIWin res0 \<and> CoinFlipGameResult.netChange res0 = 0 \<and>
               (\<not> participant \<and> \<not> won \<longrightarrow> res = res0))))" for p
    using netChange_by_role [where l = "coinFlipLedger settledRoom" and rid = 1
        and room = settledRoom and this = reader and p = p] settled_read s
    by blast
  have ds: "getDiceRoom (diceLedger settledDiceRoom [alice, bob]) 1 = Inr settledDiceRoom"
    "getDiceRoomPlayers (diceLedger settledDiceRoom [alice, bob]) 1 = Inr [alice, bob]"
    "\<not> DiceRoom.isActive settledDiceRoom" "DiceRoom.winner settledDiceRoom \<noteq> ZERO_ADDRESS"
    by (simp_all add: diceLedger_def settledDiceRoom_def distinct_addresses)
  from netChange_by_role [where l' = "diceLedger settledDiceRoom [alice, bob]" and rid' = 1
      and droom = settledDiceRoom and ps = "[alice, bob]" and this' = reader] ds n
  have d: "\<exists>dres. getDiceGameResult reader (diceLedger settledDiceRoom [alice, bob]) 1 None
       = Inr dres \<and>
      \<not> DiceGameResult.didIWin dres \<and> DiceGameResult.netChange dres = 0"
    by blast
  from t [of alice]
  have a: "\<exists>res. getCoinFlipGameResult reader (coinFlipLedger settledRoom) 1 (Some alice) = Inr res \<and>
      CoinFlipGameResult.didIWin res \<and>
      CoinFlipGameResult.netChange res = CoinFlipGameResult.payout res - 1000000 \<and>
      CoinFlipGameResult.netChange res \<noteq> 0"
    by (auto simp add: Let_def settledRoom_fields lower_alice lower_bob distinct_addresses)
  from t [of bob]
  have b: "\<exists>res. getCoinFlipGameResult reader (coinFlipLedger settledRoom) 1 (Some bob) = Inr res \<and>
      \<not> CoinFlipGameResult.didIWin res \<and> CoinFlipGameResult.netChange res = - 1000000"
    by (auto simp add: Let_def settledRoom_fields lower_alice lower_bob distinct_addresses)
  from t [of carol] n
  have c: "\<exists>res. getCoinFlipGameResult reader (coinFlipLedger settledRoom) 1 (Some carol) = Inr res \<and>
      \<not> CoinFlipGameResult.didIWin res \<and> CoinFlipGameResult.netChange res = 0 \<and>
      getCoinFlipGameResult reader (coinFlipLedger settledRoom) 1 None = Inr res"
    by (auto simp add: Let_def settledRoom_fields lower_alice lower_bob lower_carol
        distinct_addresses)
  from a b c d show ?thesis by blast
qed

text \<open>
  In a settled room with a bet of zero the loser \<open>bob\<close>, a participant, has a
  \<open>netChange\<close> of \<open>0\<close>.
\<close>

theorem netChange_iff_counterexample:
  "toLowerCase bob = toLowerCase (CoinFlipRoom.playerB zeroBetRoom) \<and>
   map_sum id CoinFlipGameResult.netChange
     (getCoinFlipGameResult reader (coinFlipLedger zeroBetRoom) 1 (Some bob)) = Inr 0"
  by (simp add: getCoinFlipGameResult_def coinFlipLedger_def zeroBetRoom_def settledRoom_def Let_def
      distinct_addresses lower_alice lower_bob bigint_div_def bigint_rem_def)

text \<open>
  The comparisons of the observer with the winner and with the two players lower-case
  both sides: re-spelling any of the four addresses leaves \<open>didIWin\<close>, \<open>netChange\<close>,
  \<open>payout\<close>, \<open>fee\<close> and \<open>coinResult\<close> as they were.
\<close>

lemma observer_case_insensitive:
  assumes "getCoinFlipRoom l rid = Inr room"
    and "getCoinFlipRoom l' rid' =
           Inr (room \<lparr> CoinFlipRoom.winner := w', CoinFlipRoom.playerA := a',
                        CoinFlipRoom.playerB := b' \<rparr>)"
    and "toLowerCase w' = toLowerCase (CoinFlipRoom.winner room)"
    and "toLowerCase a' = toLowerCase (CoinFlipRoom.playerA room)"
    and "toLowerCase b' = toLowerCase (CoinFlipRoom.playerB room)"
    and "toLowerCase p' = toLowerCase p"
    and "getCoinFlipGameResult this l rid (Some p) = Inr res"
    and "getCoinFlipGameResult this' l' rid' (Some p') = Inr res'"
  shows "CoinFlipGameResult.didIWin res' = CoinFlipGameResult.didIWin res \<and>
         CoinFlipGameResult.netChange res' = CoinFlipGameResult.netChange res \<and>
         CoinFlipGameResult.payout res' = CoinFlipGameResult.payout res \<and>
         CoinFlipGameResult.fee res' = CoinFlipGameResult.fee res \<and>
         coinResult res' = coinResult res"
  using assms by (auto simp add: getCoinFlipGameResult_def Let_def split: if_splits)

text \<open>Re-spelling the observer leaves the whole result as it was.\<close>

lemma observer_respelled:
  assumes "toLowerCase p' = toLowerCase p"
  shows "getCoinFlipGameResult this l rid (Some p') = getCoinFlipGameResult this l rid (Some p)"
  using assms by (simp add: getCoinFlipGameResult_def Let_def split: sum.splits)

text \<open>
  The loser is chosen by the exact comparison \<^verbatim>\<open>winner === room.playerA\<close>. On a room
  that spells its winner as it spells the creator whenever the two are the same
  address, the exact comparison and the case-insensitive one choose alike.
\<close>

lemma loser_of_result:
  assumes "getCoinFlipRoom l rid = Inr room" "getCoinFlipGameResult this l rid pa = Inr res"
  shows "loser res = (if CoinFlipRoom.winner room = CoinFlipRoom.playerA room
                      then CoinFlipRoom.playerB room else CoinFlipRoom.playerA room)"
  using assms by (auto simp add: getCoinFlipGameResult_def Let_def split: if_splits)

text \<open>
  Claim C9, as amended. The comparisons of the observer with the ledger's addresses
  ignore case: for a settled room, re-spelling the observer leaves the entire result
  unchanged, and re-spelling the room's \<open>winner\<close>, \<open>playerA\<close> or \<open>playerB\<close> (the winner not
  becoming the zero address) leaves \<open>didIWin\<close>, \<open>netChange\<close>, \<open>payout\<close>, \<open>fee\<close> and
  \<open>coinResult\<close> unchanged. The comparisons among the addresses read from the ledger
  (winner with \<open>playerA\<close> for the loser, winner with the zero address) are exact: the
  loser is \<open>playerB\<close> when \<open>winner\<close> and \<open>playerA\<close> are the same string and \<open>playerA\<close>
  otherwise, which on a room that spells equal addresses alike is what a
  case-insensitive comparison chooses.
\<close>

theorem address_comparisons:
  assumes "getCoinFlipRoom l rid = Inr room" "\<not> CoinFlipRoom.isActive room"
    "CoinFlipRoom.winner room \<noteq> ZERO_ADDRESS" "toLowerCase p' = toLowerCase p"
  shows "\<exists>res. getCoinFlipGameResult this l rid (Some p) = Inr res \<and>
           getCoinFlipGameResult this l rid (Some p') = Inr res \<and>
           loser res = (if CoinFlipRoom.winner room = CoinFlipRoom.playerA room
                        then CoinFlipRoom.playerB room else CoinFlipRoom.playerA room) \<and>
           ((toLowerCase (CoinFlipRoom.winner room) = toLowerCase (CoinFlipRoom.playerA room)
               \<longrightarrow> CoinFlipRoom.winner room = CoinFlipRoom.playerA room) \<longrightarrow>
            loser res = (if toLowerCase (CoinFlipRoom.winner room)
                              = toLowerCase (CoinFlipRoom.playerA room)
                         then CoinFlipRoom.playerB room else CoinFlipRoom.playerA room)) \<and>
           (getCoinFlipRoom l' rid' =
              Inr (room \<lparr> CoinFlipRoom.winner := w', CoinFlipRoom.playerA := a',
                           CoinFlipRoom.playerB := b' \<rparr>) \<and>
            w' \<noteq> ZERO_ADDRESS \<and>
            toLowerCase w' = toLowerCase (CoinFlipRoom.winner room) \<and>
            toLowerCase a' = toLowerCase (CoinFlipRoom.playerA room) \<and>
            toLowerCase b' = toLowerCase (CoinFlipRoom.playerB room) \<longrightarrow>
            (\<exists>res'. getCoinFlipGameResult this' l' rid' (Some p') = Inr res' \<and>
               CoinFlipGameResult.didIWin res' = CoinFlipGameResult.didIWin res \<and>
               CoinFlipGameResult.netChange res' = CoinFlipGameResult.netChange res \<and>
               CoinFlipGameResult.payout res' = CoinFlipGameResult.payout res \<and>
               CoinFlipGameResult.fee res' = CoinFlipGameResult.fee res \<and>
               coinResult res' = coinResult res))"
proof -
  from assms(1-3) obtain res where r: "getCoinFlipGameResult this l rid (Some p) = Inr res"
    using coinflip_settled [of l rid room this "Some p"] by blast
  have r': "getCoinFlipGameResult this l rid (Some p') = Inr res"
    using r observer_respelled [OF assms(4), of this l rid] by simp
  note lo = loser_of_result [OF assms(1) r]
  have "\<exists>res'. getCoinFlipGameResult this' l' rid' (Some p') = Inr res' \<and>
               CoinFlipGameResult.didIWin res' = CoinFlipGameResult.didIWin res \<and>
               CoinFlipGameResult.netChange res' = CoinFlipGameResult.netChange res \<and>
               CoinFlipGameResult.payout res' = CoinFlipGameResult.payout res \<and>
               CoinFlipGameResult.fee res' = CoinFlipGameResult.fee res \<and>
               coinResult res' = coinResult res"
    if h: "getCoinFlipRoom l' rid' =
              Inr (room \<lparr> CoinFlipRoom.winner := w', CoinFlipRoom.playerA := a',
                           CoinFlipRoom.playerB := b' \<rparr>) \<and>
            w' \<noteq> ZERO_ADDRESS \<and>
            toLowerCase w' = toLowerCase (CoinFlipRoom.winner room) \<and>
            toLowerCase a' = toLowerCase (CoinFlipRoom.playerA room) \<and>
            toLowerCase b' = toLowerCase (CoinFlipRoom.playerB room)"
  proof -
    from h have g0: "getCoinFlipRoom l' rid' =
              Inr (room \<lparr> CoinFlipRoom.winner := w', CoinFlipRoom.playerA := a',
                           CoinFlipRoom.playerB := b' \<rparr>)"
      and wz: "w' \<noteq> ZERO_ADDRESS" by blast+
    have na: "\<not> CoinFlipRoom.isActive (room \<lparr> CoinFlipRoom.winner := w',
          CoinFlipRoom.playerA := a', CoinFlipRoom.playerB := b' \<rparr>)"
      "CoinFlipRoom.winner (room \<lparr> CoinFlipRoom.winner := w',
          CoinFlipRoom.playerA := a', CoinFlipRoom.playerB := b' \<rparr>) \<noteq> ZERO_ADDRESS"
      using assms(2) wz by simp_all
    from coinflip_settled [OF g0 na] obtain res'
      where s: "getCoinFlipGameResult this' l' rid' (Some p') = Inr res'"
      by blast
    from h have g: "getCoinFlipRoom l' rid' =
              Inr (room \<lparr> CoinFlipRoom.winner := w', CoinFlipRoom.playerA := a',
                           CoinFlipRoom.playerB := b' \<rparr>)"
      and e: "toLowerCase w' = toLowerCase (CoinFlipRoom.winner room)"
        "toLowerCase a' = toLowerCase (CoinFlipRoom.playerA room)"
        "toLowerCase b' = toLowerCase (CoinFlipRoom.playerB room)"
      by blast+
    from observer_case_insensitive [OF assms(1) g e assms(4) r s] s show ?thesis by blast
  qed
  then have R: "getCoinFlipRoom l' rid' =
              Inr (room \<lparr> CoinFlipRoom.winner := w', CoinFlipRoom.playerA := a',
                           CoinFlipRoom.playerB := b' \<rparr>) \<and>
            w' \<noteq> ZERO_ADDRESS \<and>
            toLowerCase w' = toLowerCase (CoinFlipRoom.winner room) \<and>
            toLowerCase a' = toLowerCase (CoinFlipRoom.playerA room) \<and>
            toLowerCase b' = toLowerCase (CoinFlipRoom.playerB room) \<longrightarrow>
            (\<exists>res'. getCoinFlipGameResult this' l' rid' (Some p') = Inr res' \<and>
               CoinFlipGameResult.didIWin res' = CoinFlipGameResult.didIWin res \<and>
               CoinFlipGameResult.netChange res' = CoinFlipGameResult.netChange res \<and>
               CoinFlipGameResult.payout res' = CoinFlipGameResult.payout res \<and>
               CoinFlipGameResult.fee res' = CoinFlipGameResult.fee res \<and>
               coinResult res' = coinResult res)"
    by (rule impI)
  have L: "(toLowerCase (CoinFlipRoom.winner room) = toLowerCase (CoinFlipRoom.playerA room)
               \<longrightarrow> CoinFlipRoom.winner room = CoinFlipRoom.playerA room) \<longrightarrow>
            loser res = (if toLowerCase (CoinFlipRoom.winner room)
                              = toLowerCase (CoinFlipRoom.playerA room)
                         then CoinFlipRoom.playerB room else CoinFlipRoom.playerA room)"
    using lo by auto
  from r r' lo L R show ?thesis by (intro exI [of _ res] conjI)
qed

lemma capital_read:
  "getCoinFlipRoom (coinFlipLedger capitalRoom) 1 =
     Inr (settledRoom \<lparr> CoinFlipRoom.winner := ALICE, CoinFlipRoom.playerA := ALICE,
                         CoinFlipRoom.playerB := bob \<rparr>)"
  by (simp add: coinFlipLedger_def capitalRoom_def settledRoom_def)

text \<open>
  The winner \<open>alice\<close> asks under her capital spelling and under her small one; then the
  room spells her with capitals as winner and as creator.
\<close>

theorem address_comparisons_witness:
  "\<exists>res res'. getCoinFlipGameResult reader (coinFlipLedger settledRoom) 1 (Some alice) = Inr res \<and>
     getCoinFlipGameResult reader (coinFlipLedger settledRoom) 1 (Some ALICE) = Inr res \<and>
     loser res = bob \<and> CoinFlipGameResult.didIWin res \<and>
     getCoinFlipGameResult reader (coinFlipLedger capitalRoom) 1 (Some ALICE) = Inr res' \<and>
     CoinFlipGameResult.didIWin res' \<and>
     CoinFlipGameResult.netChange res' = CoinFlipGameResult.netChange res"
proof -
  have s: "\<not> CoinFlipRoom.isActive settledRoom" "CoinFlipRoom.winner settledRoom \<noteq> ZERO_ADDRESS"
    by (simp_all add: settledRoom_fields distinct_addresses)
  have e: "toLowerCase ALICE = toLowerCase alice" by (simp add: lower_ALICE lower_alice)
  have prem: "getCoinFlipRoom (coinFlipLedger capitalRoom) 1 =
       Inr (settledRoom \<lparr> CoinFlipRoom.winner := ALICE, CoinFlipRoom.playerA := ALICE,
                           CoinFlipRoom.playerB := bob \<rparr>) \<and>
     ALICE \<noteq> ZERO_ADDRESS \<and>
     toLowerCase ALICE = toLowerCase (CoinFlipRoom.winner settledRoom) \<and>
     toLowerCase ALICE = toLowerCase (CoinFlipRoom.playerA settledRoom) \<and>
     toLowerCase bob = toLowerCase (CoinFlipRoom.playerB settledRoom)"
    by (simp add: capital_read settledRoom_fields distinct_addresses lower_alice lower_ALICE)
  from address_comparisons [OF settled_read s e, where this = reader and rid = 1
      and l' = "coinFlipLedger capitalRoom" and rid' = 1 and w' = ALICE and a' = ALICE
      and b' = bob and this' = reader]
  obtain res where r: "getCoinFlipGameResult reader (coinFlipLedger settledRoom) 1 (Some alice)
      = Inr res"
    "getCoinFlipGameResult reader (coinFlipLedger settledRoom) 1 (Some ALICE) = Inr res"
    "loser res = (if CoinFlipRoom.winner settledRoom = CoinFlipRoom.playerA settledRoom
                  then CoinFlipRoom.playerB settledRoom else CoinFlipRoom.playerA settledRoom)"
    "getCoinFlipRoom (coinFlipLedger capitalRoom) 1 =
       Inr (settledRoom \<lparr> CoinFlipRoom.winner := ALICE, CoinFlipRoom.playerA := ALICE,
                           CoinFlipRoom.playerB := bob \<rparr>) \<and>
     ALICE \<noteq> ZERO_ADDRESS \<and>
     toLowerCase ALICE = toLowerCase (CoinFlipRoom.winner settledRoom) \<and>
     toLowerCase ALICE = toLowerCase (CoinFlipRoom.playerA settledRoom) \<and>
     toLowerCase bob = toLowerCase (CoinFlipRoom.playerB settledRoom) \<longrightarrow>
     (\<exists>res'. getCoinFlipGameResult reader (coinFlipLedger capitalRoom) 1 (Some ALICE) = Inr res' \<and>
        CoinFlipGameResult.didIWin res' = CoinFlipGameResult.didIWin res \<and>
        CoinFlipGameResult.netChange res' = CoinFlipGameResult.netChange res \<and>
        CoinFlipGameResult.payout res' = CoinFlipGameResult.payout res \<and>
        CoinFlipGameResult.fee res' = CoinFlipGameResult.fee res \<and>
        coinResult res' = coinResult res)"
    by blast
  from r(4) [THEN mp, OF prem] obtain res' where
    r': "getCoinFlipGameResult reader (coinFlipLedger capitalRoom) 1 (Some ALICE) = Inr res'"
    "CoinFlipGameResult.didIWin res' = CoinFlipGameResult.didIWin res"
    "CoinFlipGameResult.netChange res' = CoinFlipGameResult.netChange res"
    by blast
  from r(3) have lo: "loser res = bob" by (simp add: settledRoom_fields)
  have "Inr res = getCoinFlipGameResult reader (coinFlipLedger settledRoom) 1 (Some alice)"
    using r(1) by simp
  then have w: "CoinFlipGameResult.didIWin res"
    by (simp add: getCoinFlipGameResult_def coinFlipLedger_def Let_def
        settledRoom_fields distinct_addresses lower_alice)
  from r(1,2) r' lo w show ?thesis by (intro exI [of _ res] exI [of _ res'] conjI) simp_all
qed

text \<open>
  The claim lets any input address be re-spelled. When the room spells \<open>alice\<close> with
  capital hex digits both as winner and as creator, the result carries that spelling
  in its \<open>winner\<close> field, so the results differ. When only the room's \<open>winner\<close> is
  re-spelled, the exact comparison with \<open>playerA\<close> fails and the result's \<open>loser\<close> is
  \<open>alice\<close>, where the uniformly spelled rooms give \<open>bob\<close>.
\<close>

theorem respelled_winner_counterexample:
  "toLowerCase (CoinFlipRoom.winner capitalRoom) = toLowerCase (CoinFlipRoom.winner settledRoom) \<and>
   toLowerCase (CoinFlipRoom.playerA capitalRoom) = toLowerCase (CoinFlipRoom.playerA settledRoom) \<and>
   map_sum id CoinFlipGameResult.winner
     (getCoinFlipGameResult reader (coinFlipLedger settledRoom) 1 (Some alice)) = Inr alice \<and>
   map_sum id CoinFlipGameResult.winner
     (getCoinFlipGameResult reader (coinFlipLedger capitalRoom) 1 (Some alice)) = Inr ALICE \<and>
   ALICE \<noteq> alice \<and>
   map_sum id loser (getCoinFlipGameResult reader (coinFlipLedger capitalRoom) 1 (Some alice))
     = Inr bob \<and>
   toLowerCase (CoinFlipRoom.winner recasedRoom) = toLowerCase (CoinFlipRoom.winner settledRoom) \<and>
   map_sum id loser (getCoinFlipGameResult reader (coinFlipLedger settledRoom) 1 (Some alice))
     = Inr bob \<and>
   map_sum id loser (getCoinFlipGameResult reader (coinFlipLedger recasedRoom) 1 (Some alice))
     = Inr alice"
  by (simp add: getCoinFlipGameResult_def coinFlipLedger_def recasedRoom_def capitalRoom_def
      settledRoom_def Let_def distinct_addresses lower_alice lower_ALICE lower_bob bigint_div_def
      bigint_rem_def)

section \<open>Waiting sessions\<close>



text \<open>
  A poll of \<open>waitForCoinFlipResult\<close> that reads a cancelled room (inactive, no winner,
  no opponent) ends the session on that tick with the "cancelled" error.
\<close>

lemma pollCoinFlip_cancelled:
  assumes "getCoinFlipRoom (ledgerAt w i) rid = Inr room" "\<not> CoinFlipRoom.isActive room"
    "CoinFlipRoom.winner room = ZERO_ADDRESS" "CoinFlipRoom.playerB room = ZERO_ADDRESS" "e < tmo"
  shows "pollCoinFlip (Suc fuel) this w rid tmo pollInt onProg i e log =
         Some \<lparr> outcome = Inl RoomCancelled, polls = Suc i, elapsed = e, notifications = log \<rparr>"
  using assms by simp













text \<open>
  The bound of five polls needs iterations that take the interval at least: when the
  fifth ends one millisecond early the loop test reads 9999 and a sixth poll follows.
\<close>

lemma early_timer_six_polls:
  "waitForCoinFlipResult 7 reader (hasty (coinFlipLedger waitingRoom)) 1 tenSeconds =
     Some \<lparr> outcome = Inl (TimeoutGameResult 10000), polls = 6, elapsed = 11999,
            notifications = [WaitingForOpponent, WaitingForOpponent, WaitingForOpponent,
                             WaitingForOpponent, WaitingForOpponent, WaitingForOpponent] \<rparr>"
  by (simp add: waitForCoinFlipResult_def tenSeconds_def hasty_def coinFlipLedger_def
      waitingRoom_def eval_nat_numeral)

text \<open>
  Claim C5. The claim wants either waiter to end with a "cancelled" error on the tick
  that reads a cancelled room. \<open>waitForCoinFlipResult\<close> does; \<open>waitForDiceResult\<close> has no
  such test: on a Dice room that every poll reads as inactive with the zero address as
  winner it polls five times in ten seconds, reports progress each time, and ends with
  the timeout error.
\<close>

theorem waitForDiceResult_ignores_cancellation:
  "waitForDiceResult 6 reader (steady (diceLedger cancelledDiceRoom [alice]) 0) 1 tenSeconds =
     Some \<lparr> outcome = Inl (TimeoutDiceResult 10000), polls = 5, elapsed = 10000,
            notifications = [WaitingForPlayers 1 3, WaitingForPlayers 1 3, WaitingForPlayers 1 3,
                             WaitingForPlayers 1 3, WaitingForPlayers 1 3] \<rparr> \<and>
   waitForCoinFlipResult 6 reader (steady (coinFlipLedger cancelledRoom) 0) 1 tenSeconds =
     Some \<lparr> outcome = Inl RoomCancelled, polls = 1, elapsed = 0, notifications = [] \<rparr>"
  by (simp add: waitForDiceResult_def waitForCoinFlipResult_def tenSeconds_def steady_def
      diceLedger_def coinFlipLedger_def cancelledDiceRoom_def waitingDiceRoom_def cancelledRoom_def
      waitingRoom_def eval_nat_numeral)

section \<open>The VRF cost estimate\<close>

lemma buffered_ge: "0 \<le> m \<Longrightarrow> m \<le> (m * 140) div (100::int)"
  by arith

text \<open>
  When the three reads succeed, the estimate is the wrapper's price for the callback
  gas limit, one word and the buffered fee.
\<close>

lemma estimateVrfCost_ok:
  assumes "vrfCallbackGasLimit n = Inr g" "currentGasPrices n = (cs, Inr (X, Y))"
    "estimateRequestPriceNative n g 1 (bigint_div (max X Y * 140) 100) = Inr c"
  shows "estimateVrfCost n =
           (ReadVrfCallbackGasLimit # cs @
              [EstimateRequestPriceNative g 1 (bigint_div (max X Y * 140) 100)],
            Inr \<lparr> cost = c, maxFeePerGas = bigint_div (max X Y * 140) 100,
                  maxPriorityFeePerGas = Y \<rparr>)"
proof -
  have m: "(if Y < X then X else Y) = max X Y" by (simp add: max_def)
  show ?thesis using assms by (simp add: estimateVrfCost_def Let_def m)
qed

text \<open>
  With the pair \<open>(X, Y)\<close> that the gas reading assigns, both unsigned, the estimate
  carries the floor of \<open>max X Y * 140 / 100\<close>, which is at least \<open>Y\<close>.
\<close>

lemma estimateVrfCost_of_prices:
  assumes "vrfCallbackGasLimit n = Inr g" "currentGasPrices n = (cs, Inr (X, Y))"
    "0 \<le> X" "0 \<le> Y"
    "estimateRequestPriceNative n g 1 ((max X Y * 140) div 100) = Inr c"
  shows "estimateVrfCost n =
           (ReadVrfCallbackGasLimit # cs @
              [EstimateRequestPriceNative g 1 ((max X Y * 140) div 100)],
            Inr \<lparr> cost = c, maxFeePerGas = (max X Y * 140) div 100,
                  maxPriorityFeePerGas = Y \<rparr>) \<and>
         Y \<le> (max X Y * 140) div 100"
proof -
  have m: "0 \<le> max X Y" using assms(3) by simp
  then have b: "bigint_div (max X Y * 140) 100 = (max X Y * 140) div 100"
    by (simp add: bigint_div_nonneg)
  have "max X Y \<le> (max X Y * 140) div 100" using m by (rule buffered_ge)
  then have "Y \<le> (max X Y * 140) div 100" by simp
  moreover have "estimateVrfCost n =
           (ReadVrfCallbackGasLimit # cs @
              [EstimateRequestPriceNative g 1 ((max X Y * 140) div 100)],
            Inr \<lparr> cost = c, maxFeePerGas = (max X Y * 140) div 100,
                  maxPriorityFeePerGas = Y \<rparr>)"
    using estimateVrfCost_ok [of n g cs X Y c] assms(1,2,5) b by simp
  ultimately show ?thesis by simp
qed

text \<open>What each gas path assigns, from the answers of the node.\<close>

lemma currentGasPrices_primary:
  "estimateFeesPerGas n = Inr fd \<Longrightarrow>
   currentGasPrices n =
     ([EstimateFeesPerGas],
      Inr ((case FeeData.maxFeePerGas fd of Some x \<Rightarrow> x | None \<Rightarrow> 0),
           (case FeeData.maxPriorityFeePerGas fd of Some y \<Rightarrow> y | None \<Rightarrow> 1500000000)))"
  by (simp add: currentGasPrices_def)

lemma currentGasPrices_fallback:
  "estimateFeesPerGas n = Inl e \<Longrightarrow> getGasPrice n = Inr G \<Longrightarrow>
   currentGasPrices n = ([EstimateFeesPerGas, GetGasPrice], Inr (max G 1500000000, 1500000000))"
  by (simp add: currentGasPrices_def Let_def max_def)

text \<open>
  Claim C7. When \<open>estimateFeesPerGas\<close> answers a base fee \<open>X\<close> (0 when undefined) and a
  priority fee \<open>Y\<close> (1500000000 when undefined), in either order of size (fees are
  unsigned), \<open>estimateVrfCost\<close> returns \<open>maxFeePerGas = floor (max X Y * 140 / 100)\<close>,
  which is at least the \<open>maxPriorityFeePerGas = Y\<close> it returns, and its last call hands
  the wrapper's price function the ledger's callback gas limit, the word count 1 and
  that buffered fee; the price it answers is the cost. When \<open>estimateFeesPerGas\<close> is
  rejected and \<open>getGasPrice\<close> answers \<open>G\<close>, the same holds with the base fee
  \<open>max G 1500000000\<close> and the priority fee 1500000000.
\<close>

theorem estimateVrfCost_buffer:
  "(vrfCallbackGasLimit n = Inr g \<and> estimateFeesPerGas n = Inr fd \<and>
    X = (case FeeData.maxFeePerGas fd of Some x \<Rightarrow> x | None \<Rightarrow> 0) \<and>
    Y = (case FeeData.maxPriorityFeePerGas fd of Some y \<Rightarrow> y | None \<Rightarrow> 1500000000) \<and>
    0 \<le> X \<and> 0 \<le> Y \<and>
    estimateRequestPriceNative n g 1 ((max X Y * 140) div 100) = Inr c \<longrightarrow>
      estimateVrfCost n =
        ([ReadVrfCallbackGasLimit, EstimateFeesPerGas,
          EstimateRequestPriceNative g 1 ((max X Y * 140) div 100)],
         Inr \<lparr> cost = c, maxFeePerGas = (max X Y * 140) div 100,
               maxPriorityFeePerGas = Y \<rparr>) \<and>
      Y \<le> (max X Y * 140) div 100) \<and>
   (vrfCallbackGasLimit n = Inr g \<and> estimateFeesPerGas n = Inl e \<and> getGasPrice n = Inr G \<and>
    estimateRequestPriceNative n g 1 ((max G 1500000000 * 140) div 100) = Inr c' \<longrightarrow>
      estimateVrfCost n =
        ([ReadVrfCallbackGasLimit, EstimateFeesPerGas, GetGasPrice,
          EstimateRequestPriceNative g 1 ((max G 1500000000 * 140) div 100)],
         Inr \<lparr> cost = c', maxFeePerGas = (max G 1500000000 * 140) div 100,
               maxPriorityFeePerGas = 1500000000 \<rparr>) \<and>
      1500000000 \<le> (max G 1500000000 * 140) div 100)"
proof (intro conjI impI)
  assume a: "vrfCallbackGasLimit n = Inr g \<and> estimateFeesPerGas n = Inr fd \<and>
    X = (case FeeData.maxFeePerGas fd of Some x \<Rightarrow> x | None \<Rightarrow> 0) \<and>
    Y = (case FeeData.maxPriorityFeePerGas fd of Some y \<Rightarrow> y | None \<Rightarrow> 1500000000) \<and>
    0 \<le> X \<and> 0 \<le> Y \<and>
    estimateRequestPriceNative n g 1 ((max X Y * 140) div 100) = Inr c"
  then have g: "vrfCallbackGasLimit n = Inr g" and x: "0 \<le> X" and y: "0 \<le> Y"
    and c: "estimateRequestPriceNative n g 1 ((max X Y * 140) div 100) = Inr c"
    and fd: "estimateFeesPerGas n = Inr fd"
    and X: "X = (case FeeData.maxFeePerGas fd of Some x \<Rightarrow> x | None \<Rightarrow> 0)"
    and Y: "Y = (case FeeData.maxPriorityFeePerGas fd of Some y \<Rightarrow> y | None \<Rightarrow> 1500000000)"
    by blast+
  have p: "currentGasPrices n = ([EstimateFeesPerGas], Inr (X, Y))"
    unfolding X Y using fd by (rule currentGasPrices_primary)
  from estimateVrfCost_of_prices [OF g p x y c]
  show "estimateVrfCost n =
        ([ReadVrfCallbackGasLimit, EstimateFeesPerGas,
          EstimateRequestPriceNative g 1 ((max X Y * 140) div 100)],
         Inr \<lparr> cost = c, maxFeePerGas = (max X Y * 140) div 100,
               maxPriorityFeePerGas = Y \<rparr>)"
    and "Y \<le> (max X Y * 140) div 100"
    by simp_all
next
  assume a: "vrfCallbackGasLimit n = Inr g \<and> estimateFeesPerGas n = Inl e \<and> getGasPrice n = Inr G \<and>
    estimateRequestPriceNative n g 1 ((max G 1500000000 * 140) div 100) = Inr c'"
  then have g: "vrfCallbackGasLimit n = Inr g"
    and fe: "estimateFeesPerGas n = Inl e" and gp: "getGasPrice n = Inr G"
    and c: "estimateRequestPriceNative n g 1 ((max G 1500000000 * 140) div 100) = Inr c'"
    by blast+
  have p: "currentGasPrices n
      = ([EstimateFeesPerGas, GetGasPrice], Inr (max G 1500000000, 1500000000))"
    using fe gp by (rule currentGasPrices_fallback)
  have m: "max (max G 1500000000) 1500000000 = max G (1500000000::int)" by simp
  have z: "(0::int) \<le> max G 1500000000" "(0::int) \<le> 1500000000" by simp_all
  from c have c2: "estimateRequestPriceNative n g 1
      ((max (max G 1500000000) 1500000000 * 140) div 100) = Inr c'"
    unfolding m .
  from estimateVrfCost_of_prices [OF g p z c2]
  show "estimateVrfCost n =
        ([ReadVrfCallbackGasLimit, EstimateFeesPerGas, GetGasPrice,
          EstimateRequestPriceNative g 1 ((max G 1500000000 * 140) div 100)],
         Inr \<lparr> cost = c', maxFeePerGas = (max G 1500000000 * 140) div 100,
               maxPriorityFeePerGas = 1500000000 \<rparr>)"
    and "1500000000 \<le> (max G 1500000000 * 140) div 100"
    unfolding m by simp_all
qed

text \<open>
  A base fee of 1000000 under a priority fee of 1000000005, a base fee of 3000000000
  over a priority fee of 1000000000, and a gas price of 3000000000 after a rejected fee
  estimate.
\<close>

theorem estimateVrfCost_buffer_witness:
  "estimateVrfCost calmNode =
     ([ReadVrfCallbackGasLimit, EstimateFeesPerGas,
       EstimateRequestPriceNative 200000 1 1400000007],
      Inr \<lparr> cost = 280000001400000, maxFeePerGas = 1400000007,
            maxPriorityFeePerGas = 1000000005 \<rparr>) \<and>
   estimateVrfCost busyNode =
     ([ReadVrfCallbackGasLimit, EstimateFeesPerGas,
       EstimateRequestPriceNative 200000 1 4200000000],
      Inr \<lparr> cost = 840000000000000, maxFeePerGas = 4200000000,
            maxPriorityFeePerGas = 1000000000 \<rparr>) \<and>
   estimateVrfCost legacyNode =
     ([ReadVrfCallbackGasLimit, EstimateFeesPerGas, GetGasPrice,
       EstimateRequestPriceNative 200000 1 4200000000],
      Inr \<lparr> cost = 840000000000000, maxFeePerGas = 4200000000,
            maxPriorityFeePerGas = 1500000000 \<rparr>)"
proof -
  have a: "estimateVrfCost calmNode =
     ([ReadVrfCallbackGasLimit, EstimateFeesPerGas,
       EstimateRequestPriceNative 200000 1 1400000007],
      Inr \<lparr> cost = 280000001400000, maxFeePerGas = 1400000007,
            maxPriorityFeePerGas = 1000000005 \<rparr>)"
    using estimateVrfCost_buffer [where n = calmNode and g = 200000
        and fd = "\<lparr> FeeData.maxFeePerGas = Some 1000000,
                    FeeData.maxPriorityFeePerGas = Some 1000000005 \<rparr>"
        and X = 1000000 and Y = 1000000005 and c = 280000001400000]
    by (simp add: calmNode_def)
  have b: "estimateVrfCost busyNode =
     ([ReadVrfCallbackGasLimit, EstimateFeesPerGas,
       EstimateRequestPriceNative 200000 1 4200000000],
      Inr \<lparr> cost = 840000000000000, maxFeePerGas = 4200000000,
            maxPriorityFeePerGas = 1000000000 \<rparr>)"
    using estimateVrfCost_buffer [where n = busyNode and g = 200000
        and fd = "\<lparr> FeeData.maxFeePerGas = Some 3000000000,
                    FeeData.maxPriorityFeePerGas = Some 1000000000 \<rparr>"
        and X = 3000000000 and Y = 1000000000 and c = 840000000000000]
    by (simp add: busyNode_def calmNode_def)
  have c: "estimateVrfCost legacyNode =
     ([ReadVrfCallbackGasLimit, EstimateFeesPerGas, GetGasPrice,
       EstimateRequestPriceNative 200000 1 4200000000],
      Inr \<lparr> cost = 840000000000000, maxFeePerGas = 4200000000,
            maxPriorityFeePerGas = 1500000000 \<rparr>)"
    using estimateVrfCost_buffer [where n = legacyNode and g = 200000
        and e = "Rejected ''fees unavailable''" and G = 3000000000 and c' = 840000000000000]
    by (simp add: legacyNode_def calmNode_def)
  from a b c show ?thesis by simp
qed

text \<open>The estimator reads; it never writes.\<close>

lemma currentGasPrices_calls:
  "fst (currentGasPrices n) =
     (case estimateFeesPerGas n of Inr _ \<Rightarrow> [EstimateFeesPerGas]
      | Inl _ \<Rightarrow> [EstimateFeesPerGas, GetGasPrice])"
  by (simp add: currentGasPrices_def split: sum.splits)

lemma estimateVrfCost_no_write: "WriteContract req \<notin> set (fst (estimateVrfCost n))"
  by (auto simp add: estimateVrfCost_def currentGasPrices_def Let_def split: sum.splits prod.splits)

text \<open>
  Each write method that pays for randomness awaits the estimate first: when the
  estimate fails, the method fails, with the estimate's error once the wallet check
  has passed, and its calls contain no \<open>WriteContract\<close>.
\<close>

lemma estimate_fails_join:
  assumes "snd (estimateVrfCost n) = Inl e"
  shows "(\<exists>e'. snd (joinCoinFlipRoom this n rid) = Inl e') \<and>
         (requireWallet this = Inr () \<longrightarrow> snd (joinCoinFlipRoom this n rid) = Inl e) \<and>
         WriteContract req \<notin> set (fst (joinCoinFlipRoom this n rid))"
  using assms estimateVrfCost_no_write [of req n]
  by (cases "estimateVrfCost n") (auto simp add: joinCoinFlipRoom_def split: sum.splits)

lemma estimate_fails_start:
  assumes "snd (estimateVrfCost n) = Inl e"
  shows "(\<exists>e'. snd (startDiceGame this n rid) = Inl e') \<and>
         (requireWallet this = Inr () \<longrightarrow> snd (startDiceGame this n rid) = Inl e) \<and>
         WriteContract req \<notin> set (fst (startDiceGame this n rid))"
  using assms estimateVrfCost_no_write [of req n]
  by (cases "estimateVrfCost n") (auto simp add: startDiceGame_def split: sum.splits)

lemma estimate_fails_join_dice:
  assumes "snd (estimateVrfCost n) = Inl e" "cur + 1 = mx"
  shows "(\<exists>e'. snd (joinDiceRoom this n rid cur mx) = Inl e') \<and>
         (requireWallet this = Inr () \<longrightarrow> snd (joinDiceRoom this n rid cur mx) = Inl e) \<and>
         WriteContract req \<notin> set (fst (joinDiceRoom this n rid cur mx))"
  using assms estimateVrfCost_no_write [of req n]
  by (cases "estimateVrfCost n") (auto simp add: joinDiceRoom_def Let_def split: sum.splits)

text \<open>
  Claim C8. \<open>estimateVrfCost\<close> queries the flat gas price only when
  \<open>estimateFeesPerGas\<close> was rejected, and then uses the priority fee 1500000000. A
  rejected read of the callback gas limit, a rejected gas price after a rejected fee
  estimate, and a rejected price query each make the estimate fail with that error.
  When the estimate fails, \<open>joinCoinFlipRoom\<close>, \<open>startDiceGame\<close> and the \<open>joinDiceRoom\<close>
  that fills the room fail too, and none of them calls \<open>writeContract\<close>.
\<close>

theorem estimateVrfCost_failure_propagates:
  "(GetGasPrice \<in> set (fst (estimateVrfCost n)) \<longrightarrow> (\<exists>e. estimateFeesPerGas n = Inl e)) \<and>
   ((\<exists>e. estimateFeesPerGas n = Inl e) \<and> snd (estimateVrfCost n) = Inr est \<longrightarrow>
      GetGasPrice \<in> set (fst (estimateVrfCost n)) \<and>
      VrfCostEstimate.maxPriorityFeePerGas est = 1500000000) \<and>
   (vrfCallbackGasLimit n = Inl e \<longrightarrow> snd (estimateVrfCost n) = Inl e) \<and>
   (vrfCallbackGasLimit n = Inr g \<and> estimateFeesPerGas n = Inl e' \<and> getGasPrice n = Inl e \<longrightarrow>
      snd (estimateVrfCost n) = Inl e) \<and>
   (vrfCallbackGasLimit n = Inr g \<and> currentGasPrices n = (cs, Inr (X, Y)) \<and>
      estimateRequestPriceNative n g 1 (bigint_div (max X Y * 140) 100) = Inl e \<longrightarrow>
      snd (estimateVrfCost n) = Inl e) \<and>
   (snd (estimateVrfCost n) = Inl e \<longrightarrow>
      (\<exists>e'. snd (joinCoinFlipRoom this n rid) = Inl e') \<and>
      (requireWallet this = Inr () \<longrightarrow> snd (joinCoinFlipRoom this n rid) = Inl e) \<and>
      WriteContract req \<notin> set (fst (joinCoinFlipRoom this n rid)) \<and>
      (\<exists>e'. snd (startDiceGame this n rid) = Inl e') \<and>
      (requireWallet this = Inr () \<longrightarrow> snd (startDiceGame this n rid) = Inl e) \<and>
      WriteContract req \<notin> set (fst (startDiceGame this n rid)) \<and>
      (cur + 1 = mx \<longrightarrow>
         (\<exists>e'. snd (joinDiceRoom this n rid cur mx) = Inl e') \<and>
         (requireWallet this = Inr () \<longrightarrow> snd (joinDiceRoom this n rid cur mx) = Inl e) \<and>
         WriteContract req \<notin> set (fst (joinDiceRoom this n rid cur mx))))"
proof (intro conjI)
  show "GetGasPrice \<in> set (fst (estimateVrfCost n)) \<longrightarrow> (\<exists>e. estimateFeesPerGas n = Inl e)"
    by (auto simp add: estimateVrfCost_def currentGasPrices_def Let_def split: sum.splits)
  show "(\<exists>e. estimateFeesPerGas n = Inl e) \<and> snd (estimateVrfCost n) = Inr est \<longrightarrow>
      GetGasPrice \<in> set (fst (estimateVrfCost n)) \<and>
      VrfCostEstimate.maxPriorityFeePerGas est = 1500000000"
    by (auto simp add: estimateVrfCost_def currentGasPrices_def Let_def split: sum.splits)
  show "vrfCallbackGasLimit n = Inl e \<longrightarrow> snd (estimateVrfCost n) = Inl e"
    by (simp add: estimateVrfCost_def)
  show "vrfCallbackGasLimit n = Inr g \<and> estimateFeesPerGas n = Inl e' \<and> getGasPrice n = Inl e \<longrightarrow>
      snd (estimateVrfCost n) = Inl e"
    by (simp add: estimateVrfCost_def currentGasPrices_def)
  show "vrfCallbackGasLimit n = Inr g \<and> currentGasPrices n = (cs, Inr (X, Y)) \<and>
      estimateRequestPriceNative n g 1 (bigint_div (max X Y * 140) 100) = Inl e \<longrightarrow>
      snd (estimateVrfCost n) = Inl e"
  proof -
    have m: "(if Y < X then X else Y) = max X Y" by (simp add: max_def)
    show ?thesis by (simp add: estimateVrfCost_def Let_def m)
  qed
  show "snd (estimateVrfCost n) = Inl e \<longrightarrow>
      (\<exists>e'. snd (joinCoinFlipRoom this n rid) = Inl e') \<and>
      (requireWallet this = Inr () \<longrightarrow> snd (joinCoinFlipRoom this n rid) = Inl e) \<and>
      WriteContract req \<notin> set (fst (joinCoinFlipRoom this n rid)) \<and>
      (\<exists>e'. snd (startDiceGame this n rid) = Inl e') \<and>
      (requireWallet this = Inr () \<longrightarrow> snd (startDiceGame this n rid) = Inl e) \<and>
      WriteContract req \<notin> set (fst (startDiceGame this n rid)) \<and>
      (cur + 1 = mx \<longrightarrow>
         (\<exists>e'. snd (joinDiceRoom this n rid cur mx) = Inl e') \<and>
         (requireWallet this = Inr () \<longrightarrow> snd (joinDiceRoom this n rid cur mx) = Inl e) \<and>
         WriteContract req \<notin> set (fst (joinDiceRoom this n rid cur mx)))"
    using estimate_fails_join [of n e this rid req] estimate_fails_start [of n e this rid req]
      estimate_fails_join_dice [of n e cur mx this rid req]
    by blast
qed

text \<open>
  A node that rejects both gas queries, and one that rejects the fee estimate only.
\<close>

lemma deaf_estimate:
  "estimateVrfCost deafNode =
     ([ReadVrfCallbackGasLimit, EstimateFeesPerGas, GetGasPrice],
      Inl (Rejected ''gas price unavailable''))"
  by (simp add: estimateVrfCost_def currentGasPrices_def deafNode_def legacyNode_def calmNode_def)

lemma legacy_estimate:
  "estimateVrfCost legacyNode =
     ([ReadVrfCallbackGasLimit, EstimateFeesPerGas, GetGasPrice,
       EstimateRequestPriceNative 200000 1 4200000000],
      Inr \<lparr> cost = 840000000000000, maxFeePerGas = 4200000000,
            maxPriorityFeePerGas = 1500000000 \<rparr>)"
  by (simp add: estimateVrfCost_def currentGasPrices_def legacyNode_def calmNode_def Let_def
      bigint_div_def)

theorem estimateVrfCost_failure_propagates_witness:
  "joinCoinFlipRoom signer deafNode 1 =
     ([ReadVrfCallbackGasLimit, EstimateFeesPerGas, GetGasPrice],
      Inl (Rejected ''gas price unavailable'')) \<and>
   snd (startDiceGame signer deafNode 1) = Inl (Rejected ''gas price unavailable'') \<and>
   snd (joinDiceRoom signer deafNode 1 2 3) = Inl (Rejected ''gas price unavailable'') \<and>
   snd (estimateVrfCost deafNode) = Inl (Rejected ''gas price unavailable'') \<and>
   GetGasPrice \<in> set (fst (estimateVrfCost legacyNode)) \<and>
   map_sum id VrfCostEstimate.maxPriorityFeePerGas (snd (estimateVrfCost legacyNode))
     = Inr 1500000000"
proof -
  have w: "requireWallet signer = Inr ()" by (simp add: requireWallet_def signer_def)
  have d: "snd (estimateVrfCost deafNode) = Inl (Rejected ''gas price unavailable'')"
    by (simp add: deaf_estimate)
  have l: "estimateFeesPerGas legacyNode = Inl (Rejected ''fees unavailable'')"
    by (simp add: legacyNode_def)
  have a: "(2::int) + 1 = 3" by simp
  note t = estimateVrfCost_failure_propagates [of deafNode _ "Rejected ''gas price unavailable''"
      200000 "Rejected ''fees unavailable''" _ _ _ signer 1 _ 2 3]
  have j: "snd (joinCoinFlipRoom signer deafNode 1) = Inl (Rejected ''gas price unavailable'')"
    "snd (startDiceGame signer deafNode 1) = Inl (Rejected ''gas price unavailable'')"
    "snd (joinDiceRoom signer deafNode 1 2 3) = Inl (Rejected ''gas price unavailable'')"
    using t d w a by blast+
  have c: "fst (joinCoinFlipRoom signer deafNode 1)
      = [ReadVrfCallbackGasLimit, EstimateFeesPerGas, GetGasPrice]"
    using w by (simp add: joinCoinFlipRoom_def deaf_estimate)
  obtain est where e: "snd (estimateVrfCost legacyNode) = Inr est"
    by (simp add: legacy_estimate)
  from estimateVrfCost_failure_propagates [of legacyNode est] l e
  have g: "GetGasPrice \<in> set (fst (estimateVrfCost legacyNode))"
    "VrfCostEstimate.maxPriorityFeePerGas est = 1500000000" by simp_all
  from j c d g e show ?thesis by (simp add: prod_eq_iff)
qed

end
